theory Spec2Isabelle
  imports Complex_Main "HOL-Library.Word"
begin

section \<open>Message queue (include/sync_queue.h)\<close>

text \<open>
  \<^verbatim>\<open>sync_queue<T>\<close> keeps its elements in the one member \<^verbatim>\<open>std::queue<T> data_\<close>, behind
  one mutex. The header as it stands is ill-formed: \<^verbatim>\<open>pop\<close> reads \<^verbatim>\<open>queue_.front()\<close> and
  calls \<^verbatim>\<open>queue_.pop_front()\<close>, and the class declares no \<^verbatim>\<open>queue_\<close>; \<^verbatim>\<open>push\<close> calls
  \<^verbatim>\<open>data_.push_back(v)\<close>, and \<^verbatim>\<open>std::queue\<close> has neither \<^verbatim>\<open>push_back\<close> nor
  \<^verbatim>\<open>pop_front\<close>. So \<^verbatim>\<open>pop\<close> has no behaviour to embed, and it is not modelled.

  What the dispatch stage needs of a queue is modelled: the sequence of the elements
  it holds, oldest first, and \<^verbatim>\<open>push\<close>, which puts an element behind them.
\<close>

record 'a sync_queue =
  data :: "'a list"

definition empty_queue :: "'a sync_queue" where
  "empty_queue = \<lparr>data = []\<rparr>"

definition push :: "'a \<Rightarrow> 'a sync_queue \<Rightarrow> 'a sync_queue" where
  "push v q = q\<lparr>data := data q @ [v]\<rparr>"

section \<open>Errors\<close>

text \<open>\<^verbatim>\<open>CamError\<close> is the one domain error; it carries its message.\<close>

datatype error = CamError string

section \<open>Format and option taxonomy (src/camera.cpp)\<close>

text \<open>
  The enumerations are declared in \<^verbatim>\<open>camera.h\<close>. The stream and Bayer tags are the
  enumerators the sources name. \<^verbatim>\<open>CamOptionType\<close> is only ever used through its
  unsigned value (\<^verbatim>\<open>unsigned id = type\<close>, \<^verbatim>\<open>static_cast<CamOptionType>(i)\<close>), so a tag
  is that value.
\<close>

datatype CamStreamType =
  stream_yuv2 | stream_mjpeg | stream_rgb24 | stream_rgb48
  | stream_raw8 | stream_raw16 | stream_mono8 | stream_mono16 | stream_error

datatype CamBayerType = bayer_na | bayer_rg | bayer_gr | bayer_bg | bayer_gb

type_synonym CamOptionType = "32 word"

fun bayer_type_to_str :: "CamBayerType \<Rightarrow> error + string" where
  "bayer_type_to_str bayer_na = Inr ''NA''"
| "bayer_type_to_str bayer_rg = Inr ''RGGB''"
| "bayer_type_to_str bayer_gr = Inr ''GRBG''"
| "bayer_type_to_str bayer_bg = Inr ''BGGR''"
| "bayer_type_to_str bayer_gb = Inr ''GBRG''"

definition bayer_type_from_str :: "string \<Rightarrow> error + CamBayerType" where
  "bayer_type_from_str bayer =
     (if bayer = ''NA'' then Inr bayer_na
      else if bayer = ''RGGB'' then Inr bayer_rg
      else if bayer = ''GRBG'' then Inr bayer_gr
      else if bayer = ''BGGR'' then Inr bayer_bg
      else if bayer = ''GBRG'' then Inr bayer_gb
      else Inl (CamError (''Invalid bayer format '' @ bayer)))"

fun stream_type_to_str :: "CamStreamType \<Rightarrow> error + string" where
  "stream_type_to_str stream_yuv2 = Inr ''yuv2''"
| "stream_type_to_str stream_rgb24 = Inr ''rgb24''"
| "stream_type_to_str stream_rgb48 = Inr ''rgb48''"
| "stream_type_to_str stream_raw8 = Inr ''raw8''"
| "stream_type_to_str stream_raw16 = Inr ''raw16''"
| "stream_type_to_str stream_mono8 = Inr ''mono8''"
| "stream_type_to_str stream_mono16 = Inr ''mono16''"
| "stream_type_to_str stream_mjpeg = Inr ''mjpeg''"
| "stream_type_to_str _ = Inl (CamError ''Invalid Stream type'')"

definition stream_type_from_str :: "string \<Rightarrow> error + CamStreamType" where
  "stream_type_from_str s =
     (if s = ''mjpeg'' then Inr stream_mjpeg
      else if s = ''yuv2'' then Inr stream_yuv2
      else if s = ''rgb24'' then Inr stream_rgb24
      else if s = ''rgb48'' then Inr stream_rgb48
      else if s = ''raw8'' then Inr stream_raw8
      else if s = ''raw16'' then Inr stream_raw16
      else if s = ''mono8'' then Inr stream_mono8
      else if s = ''mono16'' then Inr stream_mono16
      else Inl (CamError (''Invalid stream type '' @ s)))"

definition cam_option_type_names :: "string list" where
  "cam_option_type_names = [''bool'', ''number'', ''msec'', ''percent'', ''kelvin'', ''celsius'']"

definition cam_option_type_to_str :: "CamOptionType \<Rightarrow> error + string" where
  "cam_option_type_to_str type =
     (let id = unat type in
      if id \<ge> length cam_option_type_names then Inl (CamError ''Invalid type'')
      else Inr (cam_option_type_names ! id))"

text \<open>
  The search loop \<^verbatim>\<open>for(i = 0; i < n; i++) if(names[i] == name) return i;\<close>: the
  list is the part of the table from index \<open>i\<close> on.
\<close>

fun find_name :: "string list \<Rightarrow> string \<Rightarrow> nat \<Rightarrow> nat option" where
  "find_name [] name i = None"
| "find_name (n # ns) name i = (if n = name then Some i else find_name ns name (Suc i))"

definition cam_option_type_from_str :: "string \<Rightarrow> error + CamOptionType" where
  "cam_option_type_from_str name =
     (case find_name cam_option_type_names name 0 of
        Some i \<Rightarrow> Inr (of_nat i)
      | None \<Rightarrow> Inl (CamError (''Invalid type:'' @ name)))"

text \<open>The string encodings of the stream and Bayer tags, as the two converters spell them.\<close>

definition stream_type_names :: "string list" where
  "stream_type_names =
     [''mjpeg'', ''yuv2'', ''rgb24'', ''rgb48'', ''raw8'', ''raw16'', ''mono8'', ''mono16'']"

definition bayer_type_names :: "string list" where
  "bayer_type_names = [''NA'', ''RGGB'', ''GRBG'', ''BGGR'', ''GBRG'']"

text \<open>
  The stream-format tags that have a string encoding: the eight cases of
  \<^verbatim>\<open>stream_type_to_str\<close>. The ninth enumerator, \<^verbatim>\<open>stream_error\<close>, marks a frame that
  carries an error message in place of an image; it has no encoding, and
  \<^verbatim>\<open>stream_type_to_str\<close> sends it to the \<^verbatim>\<open>default\<close> that throws.
\<close>

definition encoded_stream_types :: "CamStreamType list" where
  "encoded_stream_types =
     [stream_yuv2, stream_rgb24, stream_rgb48, stream_raw8, stream_raw16, stream_mono8,
      stream_mono16, stream_mjpeg]"

text \<open>\<^verbatim>\<open>from_str(to_str(tag))\<close>, an exception of the first call ending the evaluation.\<close>

definition round_trip :: "('t \<Rightarrow> error + string) \<Rightarrow> (string \<Rightarrow> error + 't) \<Rightarrow> 't \<Rightarrow> error + 't" where
  "round_trip to_str from_str tag =
     (case to_str tag of Inl e \<Rightarrow> Inl e | Inr s \<Rightarrow> from_str s)"

section \<open>Camera driver registry (src/camera.cpp)\<close>

text \<open>
  The dynamic loader and the code of a plugin are outside the program: \<^verbatim>\<open>dlopen\<close>,
  \<^verbatim>\<open>dlsym\<close> and the calls through the resolved pointers are parameters, and the
  registry keeps the list of the calls made. \<open>None\<close> is the null pointer.
\<close>

type_synonym int32 = "32 word"
type_synonym size_t = "64 word"
type_synonym dl_handle = nat
type_synonym fn_ptr = nat

record 'drv dl_env =
  dlopen :: "string \<Rightarrow> dl_handle option"
  dlsym :: "dl_handle \<Rightarrow> string \<Rightarrow> fn_ptr option"
  call_generator :: "fn_ptr \<Rightarrow> int32 \<Rightarrow> 'drv option"
  call_config :: "fn_ptr \<Rightarrow> string \<Rightarrow> int32"

datatype dl_call =
  Dlopen string | Dlsym dl_handle string | Dlclose dl_handle
  | Config_call fn_ptr string | Generator_call fn_ptr int32

text \<open>The two static vectors, and the calls made to the outside so far.\<close>

record registry =
  driver_names :: "string list"
  driver_calls :: "fn_ptr list"
  dl_trace :: "dl_call list"

definition empty_registry :: registry where
  "empty_registry = \<lparr>driver_names = [], driver_calls = [], dl_trace = []\<rparr>"

definition traced :: "dl_call \<Rightarrow> registry \<Rightarrow> registry" where
  "traced c r = r\<lparr>dl_trace := dl_trace r @ [c]\<rparr>"

text \<open>The two \<^verbatim>\<open>insert(begin(), ...)\<close> that end a successful load.\<close>

definition insert_driver :: "string \<Rightarrow> fn_ptr \<Rightarrow> registry \<Rightarrow> registry" where
  "insert_driver name func r =
     r\<lparr>driver_calls := func # driver_calls r, driver_names := name # driver_names r\<rparr>"

definition driver_path :: "string \<Rightarrow> string \<Rightarrow> string" where
  "driver_path name base_path =
     (if base_path \<noteq> [] then base_path @ ''/'' else base_path)
       @ ''libols_driver_'' @ name @ ''.so''"

definition load_driver ::
  "'drv dl_env \<Rightarrow> string \<Rightarrow> string \<Rightarrow> string option \<Rightarrow> registry \<Rightarrow> (error + unit) \<times> registry" where
  "load_driver env name base_path opt r =
     (if name \<in> set (driver_names r) then (Inr (), r)
      else
        let path = driver_path name base_path;
            r1 = traced (Dlopen path) r
        in case dlopen env path of
             None \<Rightarrow> (Inl (CamError (''Failed to load driver '' @ name)), r1)
           | Some h \<Rightarrow>
               let sym = ''ols_get_'' @ name @ ''_driver'';
                   r2 = traced (Dlsym h sym) r1
               in case dlsym env h sym of
                    None \<Rightarrow>
                      (Inl (CamError (''Failed to find driver entry for '' @ name)),
                       traced (Dlclose h) r2)
                  | Some func \<Rightarrow>
                      (case opt of
                         None \<Rightarrow> (Inr (), insert_driver name func r2)
                       | Some cfg \<Rightarrow>
                           let cfg_sym = ''ols_set_'' @ name @ ''_driver_config'';
                               r3 = traced (Dlsym h cfg_sym) r2
                           in case dlsym env h cfg_sym of
                                None \<Rightarrow>
                                  (Inl (CamError (''Failed to find driver config entry for '' @ name)),
                                   traced (Dlclose h) r3)
                              | Some opt_func \<Rightarrow>
                                  let r4 = traced (Config_call opt_func cfg) r3
                                  in if call_config env opt_func cfg \<noteq> 0
                                     then (Inl (CamError (''Failed to config driver for '' @ name)), r4)
                                     else (Inr (), insert_driver name func r4)))"

definition drivers :: "registry \<Rightarrow> string list" where
  "drivers r = driver_names r"

text \<open>\<^verbatim>\<open>std::to_string\<close> of an \<^verbatim>\<open>int\<close>: the decimal digits, with a sign when negative.\<close>

function string_of_nat :: "nat \<Rightarrow> string" where
  "string_of_nat n =
     (if n < 10 then [''0123456789'' ! n]
      else string_of_nat (n div 10) @ [''0123456789'' ! (n mod 10)])"
  by pat_completeness auto
termination
  by (relation "measure id") auto

declare string_of_nat.simps [simp del]

definition to_string :: "int \<Rightarrow> string" where
  "to_string i = (if i < 0 then CHR ''-'' # string_of_nat (nat (- i)) else string_of_nat (nat i))"

text \<open>
  \<^verbatim>\<open>get\<close>: \<^verbatim>\<open>(unsigned)id >= driver_calls.size()\<close> compares the unsigned value of the
  \<^verbatim>\<open>int\<close>, so a negative id is out of range too.
\<close>

definition get :: "'drv dl_env \<Rightarrow> int32 \<Rightarrow> int32 \<Rightarrow> registry \<Rightarrow> (error + 'drv) \<times> registry" where
  "get env driver_id external_option r =
     (if unat driver_id \<ge> length (driver_calls r) then (Inl (CamError ''Invalid driver id''), r)
      else
        let func = driver_calls r ! unat driver_id;
            r1 = traced (Generator_call func external_option) r
        in case call_generator env func external_option of
             None \<Rightarrow> (Inl (CamError (''Failed to load camera '' @ to_string (sint driver_id))), r1)
           | Some d \<Rightarrow> (Inr d, r1))"

text \<open>
  A loader for trying the registry out: three plugins \<open>a\<close>, \<open>b\<close> and \<open>c\<close> under
  \<^verbatim>\<open>/lib\<close>, each with its factory and none with a configuration entry.
\<close>

definition example_env :: "string dl_env" where
  "example_env =
     \<lparr>dlopen = (\<lambda>path.
        if path = ''/lib/libols_driver_a.so'' then Some 1
        else if path = ''/lib/libols_driver_b.so'' then Some 2
        else if path = ''/lib/libols_driver_c.so'' then Some 3
        else None),
      dlsym = (\<lambda>h sym.
        if h = 1 \<and> sym = ''ols_get_a_driver'' then Some 10
        else if h = 2 \<and> sym = ''ols_get_b_driver'' then Some 20
        else if h = 3 \<and> sym = ''ols_get_c_driver'' then Some 30
        else None),
      call_generator = (\<lambda>func external_option.
        if func = 10 then Some ''camera of a''
        else if func = 20 then Some ''camera of b''
        else if func = 30 then Some ''camera of c''
        else None),
      call_config = (\<lambda>func cfg. 0)\<rparr>"

section \<open>Frame dispatch stage (src/video_generator.cpp)\<close>

subsection \<open>Messages\<close>

text \<open>
  A \<^verbatim>\<open>VideoFrame\<close> is a byte buffer; \<^verbatim>\<open>size()\<close> is a \<^verbatim>\<open>size_t\<close>. The fields of
  \<^verbatim>\<open>CamStreamFormat\<close> that the stage reads are the tag and the two \<^verbatim>\<open>int\<close> dimensions.
\<close>

type_synonym VideoFrame = "8 word list"

definition size_of :: "VideoFrame \<Rightarrow> size_t" where
  "size_of buf = of_nat (length buf)"

record CamStreamFormat =
  format :: CamStreamType
  width :: int32
  height :: int32

text \<open>
  A camera frame. The matrices are values of the image library, whose type is the
  parameter \<open>'mat\<close>; \<^verbatim>\<open>jpeg_frame\<close> is a pointer that is null until it is set. The
  member \<^verbatim>\<open>format\<close> is the field \<open>stream_format\<close>, the name \<open>format\<close> being taken by
  the tag inside it.
\<close>

record 'mat CameraFrame =
  source_frame :: VideoFrame
  stream_format :: CamStreamFormat
  bayer :: CamBayerType
  frame_dr :: int
  frame :: 'mat
  raw :: 'mat
  jpeg_frame :: "VideoFrame option"

datatype StackerControl_op = ctl_init | ctl_pause | ctl_resume | ctl_save | ctl_cancel | ctl_update

text \<open>
  Of a control message the stage reads \<^verbatim>\<open>op\<close> and \<^verbatim>\<open>save_inputs\<close>; \<^verbatim>\<open>name\<close> and
  \<^verbatim>\<open>auto_stretch\<close> stand for the fields it passes on unread.
\<close>

record StackerControl =
  op :: StackerControl_op
  save_inputs :: bool
  name :: string
  auto_stretch :: bool

text \<open>
  What a queue holds: a pointer to \<^verbatim>\<open>QueueData\<close>, told apart by
  \<^verbatim>\<open>dynamic_pointer_cast\<close>. \<open>Other_data\<close> is every object of another class
  (\<^verbatim>\<open>StatsData\<close>, \<^verbatim>\<open>ErrorNotificationData\<close>) and the null pointer.
\<close>

datatype 'mat QueueData =
  ShutDownData
  | Frame "'mat CameraFrame"
  | Control StackerControl
  | Other_data

subsection \<open>The image library\<close>

text \<open>
  OpenCV is not part of the program. Its functions are the fields of an environment,
  over any type of matrices. \<open>Mat_default\<close> is the matrix \<^verbatim>\<open>cv::Mat rgb;\<close> declares,
  \<open>Mat_header\<close> the matrix built over a buffer. \<open>imdecode\<close> is called inside
  \<^verbatim>\<open>try\<close>: \<open>None\<close> is an exception. The other calls are not guarded by the source and
  are taken to return; the exception of \<^verbatim>\<open>cv::imencode\<close> is written out further down.
\<close>

datatype cv_type = CV_8UC1 | CV_8UC2 | CV_8UC3 | CV_16UC1 | CV_16UC3

datatype ColorConversionCode =
  COLOR_YUV2BGR_YUYV | COLOR_BayerBG2BGR | COLOR_BayerGB2BGR | COLOR_BayerRG2BGR | COLOR_BayerGR2BGR

record 'mat opencv =
  Mat_default :: 'mat
  Mat_header :: "int32 \<Rightarrow> int32 \<Rightarrow> cv_type \<Rightarrow> VideoFrame \<Rightarrow> 'mat"
  cvtColor :: "'mat \<Rightarrow> ColorConversionCode \<Rightarrow> 'mat"
  imdecode :: "'mat \<Rightarrow> 'mat option"
  imencode :: "'mat \<Rightarrow> VideoFrame"
  convertTo :: "'mat \<Rightarrow> cv_type \<Rightarrow> real \<Rightarrow> 'mat"
  elemSize1 :: "'mat \<Rightarrow> nat"
  channels :: "'mat \<Rightarrow> int"
  clone :: "'mat \<Rightarrow> 'mat"

subsection \<open>The stage\<close>

text \<open>What \<^verbatim>\<open>BOOSTER_ERROR\<close> is given, one entry for each message text.\<close>

datatype log_entry =
  Got_invalid_format
  | Invalid_frame_size size_t int32
  | Failed_to_extract_jpeg
  | Invalid_bayer_patter
  | Got_frame_with_error string
  | Invalid_data_for_video_generator

text \<open>
  The members of \<^verbatim>\<open>VideoGenerator\<close>. The four outputs are taken to be four different
  queues, none of them the input; \<^verbatim>\<open>plate_solving_out_\<close> is the one pointer the code
  tests for null.
\<close>

record 'mat VideoGenerator =
  data_queue :: "'mat QueueData sync_queue"
  stack_out :: "'mat QueueData sync_queue"
  live_out :: "'mat QueueData sync_queue"
  debug_out :: "'mat QueueData sync_queue"
  plate_solving_out :: "'mat QueueData sync_queue option"
  stacking_active :: bool
  stacking_in_process :: bool
  debug_active :: bool
  error_log :: "log_entry list"

text \<open>The constructor, with the three flags at their initial \<^verbatim>\<open>false\<close>.\<close>

definition new_VideoGenerator ::
  "'mat QueueData sync_queue \<Rightarrow> 'mat QueueData sync_queue \<Rightarrow> 'mat QueueData sync_queue
   \<Rightarrow> 'mat QueueData sync_queue \<Rightarrow> 'mat QueueData sync_queue option \<Rightarrow> 'mat VideoGenerator" where
  "new_VideoGenerator queue stacking_output live_output debug plate_solving_output =
     \<lparr>data_queue = queue, stack_out = stacking_output, live_out = live_output,
      debug_out = debug, plate_solving_out = plate_solving_output,
      stacking_active = False, stacking_in_process = False, debug_active = False,
      error_log = []\<rparr>"

definition log_error :: "log_entry \<Rightarrow> 'mat VideoGenerator \<Rightarrow> 'mat VideoGenerator" where
  "log_error e vg = vg\<lparr>error_log := error_log vg @ [e]\<rparr>"

definition handle_jpeg_stack ::
  "'mat opencv \<Rightarrow> 'mat VideoGenerator \<Rightarrow> 'mat CameraFrame \<Rightarrow> 'mat \<Rightarrow> bool \<Rightarrow> 'mat CameraFrame" where
  "handle_jpeg_stack cv vg frm img copy =
     (let factor = 255 / real_of_int (frame_dr frm);
          normalized =
            (if frame_dr frm = 255 \<and> elemSize1 cv img = 1 then img
             else convertTo cv img (if channels cv img = 3 then CV_8UC3 else CV_8UC1) factor);
          buf = imencode cv normalized;
          frm1 = frm\<lparr>jpeg_frame := Some buf\<rparr>
      in if stacking_active vg \<or> plate_solving_out vg \<noteq> None
         then (if copy then frm1\<lparr>frame := clone cv img\<rparr> else frm1\<lparr>frame := img\<rparr>)
         else frm1)"

text \<open>The first \<^verbatim>\<open>switch\<close> of \<^verbatim>\<open>process_frame\<close>; \<open>None\<close> is its \<^verbatim>\<open>default\<close>, which returns.\<close>

fun bytes_per_pixel :: "CamStreamType \<Rightarrow> int32 option" where
  "bytes_per_pixel stream_mjpeg = Some (- 1)"
| "bytes_per_pixel stream_mono8 = Some 1"
| "bytes_per_pixel stream_raw8 = Some 1"
| "bytes_per_pixel stream_yuv2 = Some 2"
| "bytes_per_pixel stream_mono16 = Some 2"
| "bytes_per_pixel stream_raw16 = Some 2"
| "bytes_per_pixel stream_rgb24 = Some 3"
| "bytes_per_pixel stream_rgb48 = Some 6"
| "bytes_per_pixel _ = None"

text \<open>
  The size test, in \<^verbatim>\<open>int\<close>: the \<^verbatim>\<open>size_t\<close> is cut to 32 bits by \<^verbatim>\<open>int(...)\<close> and the
  product is a product of \<^verbatim>\<open>int\<close>s, which wraps here where C++ leaves it undefined.
\<close>

definition invalid_frame_size :: "'mat CameraFrame \<Rightarrow> int32 \<Rightarrow> bool" where
  "invalid_frame_size frm bpp =
     (0 <s bpp \<and>
      (ucast (size_of (source_frame frm)) :: int32)
        \<noteq> height (stream_format frm) * width (stream_format frm) * bpp)"

definition bytes_to_string :: "VideoFrame \<Rightarrow> string" where
  "bytes_to_string buf = map (\<lambda>b. char_of (unat b)) buf"

text \<open>The demosaicing \<^verbatim>\<open>switch\<close>: the messages logged and the colour image.\<close>

fun debayer :: "'mat opencv \<Rightarrow> CamBayerType \<Rightarrow> 'mat \<Rightarrow> log_entry list \<times> 'mat" where
  "debayer cv bayer_rg m = ([], cvtColor cv m COLOR_BayerBG2BGR)"
| "debayer cv bayer_gr m = ([], cvtColor cv m COLOR_BayerGB2BGR)"
| "debayer cv bayer_bg m = ([], cvtColor cv m COLOR_BayerRG2BGR)"
| "debayer cv bayer_gb m = ([], cvtColor cv m COLOR_BayerGR2BGR)"
| "debayer cv _ m = ([Invalid_bayer_patter], Mat_default cv)"

text \<open>The body shared by the cases \<^verbatim>\<open>stream_raw8\<close> and \<^verbatim>\<open>stream_raw16\<close>.\<close>

definition convert_raw ::
  "'mat opencv \<Rightarrow> 'mat VideoGenerator \<Rightarrow> int32 \<Rightarrow> 'mat CameraFrame
   \<Rightarrow> log_entry list \<times> 'mat CameraFrame option" where
  "convert_raw cv vg bpp frm =
     (let bayer_mat = Mat_header cv (height (stream_format frm)) (width (stream_format frm))
                        (if bpp = 1 then CV_8UC1 else CV_16UC1) (source_frame frm);
          (errs, rgb) = debayer cv (bayer frm) bayer_mat;
          frm1 = frm\<lparr>frame_dr := (if bpp = 1 then 255 else 65535)\<rparr>;
          frm2 = handle_jpeg_stack cv vg frm1 rgb False
      in (errs, Some (frm2\<lparr>raw := bayer_mat\<rparr>)))"

text \<open>The body shared by the cases \<^verbatim>\<open>stream_mono8\<close> and \<^verbatim>\<open>stream_mono16\<close>.\<close>

definition convert_mono ::
  "'mat opencv \<Rightarrow> 'mat VideoGenerator \<Rightarrow> int32 \<Rightarrow> 'mat CameraFrame
   \<Rightarrow> log_entry list \<times> 'mat CameraFrame option" where
  "convert_mono cv vg bpp frm =
     (let mono = Mat_header cv (height (stream_format frm)) (width (stream_format frm))
                   (if bpp = 1 then CV_8UC1 else CV_16UC1) (source_frame frm);
          frm1 = frm\<lparr>frame_dr := (if bpp = 1 then 255 else 65535)\<rparr>;
          frm2 = handle_jpeg_stack cv vg frm1 mono True
      in ([], Some (frm2\<lparr>raw := mono\<rparr>)))"

text \<open>
  The second \<^verbatim>\<open>switch\<close> of \<^verbatim>\<open>process_frame\<close>: the messages it logs and the frame as
  it leaves the \<^verbatim>\<open>switch\<close>, or \<open>None\<close> where the case returns. Its \<^verbatim>\<open>default\<close> has
  no tag left.
\<close>

definition convert_frame ::
  "'mat opencv \<Rightarrow> 'mat VideoGenerator \<Rightarrow> int32 \<Rightarrow> 'mat CameraFrame
   \<Rightarrow> log_entry list \<times> 'mat CameraFrame option" where
  "convert_frame cv vg bpp frm =
     (let h = height (stream_format frm); w = width (stream_format frm);
          src = source_frame frm in
      case format (stream_format frm) of
        stream_mjpeg \<Rightarrow>
          (let frm1 = frm\<lparr>jpeg_frame := Some src\<rparr> in
           if stacking_active vg \<or> plate_solving_out vg \<noteq> None then
             (let len = size_of src;
                  buffer = Mat_header cv 1 (ucast len) CV_8UC1 src
              in case imdecode cv buffer of
                   None \<Rightarrow> ([Failed_to_extract_jpeg], None)
                 | Some m \<Rightarrow> ([], Some (frm1\<lparr>frame := m, frame_dr := 255, raw := m\<rparr>)))
           else ([], Some frm1))
      | stream_yuv2 \<Rightarrow>
          (let yuv2 = Mat_header cv h w CV_8UC2 src;
               rgb = cvtColor cv yuv2 COLOR_YUV2BGR_YUYV;
               frm1 = frm\<lparr>frame_dr := 255, raw := yuv2\<rparr>
           in ([], Some (handle_jpeg_stack cv vg frm1 rgb False)))
      | stream_rgb24 \<Rightarrow>
          (let rgb = Mat_header cv h w CV_8UC3 src;
               frm1 = frm\<lparr>frame_dr := 255, raw := rgb\<rparr>
           in ([], Some (handle_jpeg_stack cv vg frm1 rgb True)))
      | stream_rgb48 \<Rightarrow>
          (let rgb = Mat_header cv h w CV_16UC3 src;
               frm1 = frm\<lparr>frame_dr := 65535, raw := rgb\<rparr>
           in ([], Some (handle_jpeg_stack cv vg frm1 rgb False)))
      | stream_raw8 \<Rightarrow> convert_raw cv vg bpp frm
      | stream_raw16 \<Rightarrow> convert_raw cv vg bpp frm
      | stream_mono8 \<Rightarrow> convert_mono cv vg bpp frm
      | stream_mono16 \<Rightarrow> convert_mono cv vg bpp frm
      | stream_error \<Rightarrow> ([Got_frame_with_error (bytes_to_string src)], None))"

text \<open>The four pushes that end \<^verbatim>\<open>process_frame\<close>.\<close>

definition fan_out :: "'mat CameraFrame \<Rightarrow> 'mat VideoGenerator \<Rightarrow> 'mat VideoGenerator" where
  "fan_out frm vg =
     (let vg1 = vg\<lparr>live_out := push (Frame frm) (live_out vg)\<rparr>;
          vg2 = (if stacking_active vg1
                 then vg1\<lparr>stack_out := push (Frame frm) (stack_out vg1)\<rparr> else vg1);
          vg3 = (if debug_active vg2 \<and> stacking_active vg2
                 then vg2\<lparr>debug_out := push (Frame frm) (debug_out vg2)\<rparr> else vg2)
      in case plate_solving_out vg3 of
           None \<Rightarrow> vg3
         | Some q \<Rightarrow>
             if \<not> stacking_in_process vg3
             then vg3\<lparr>plate_solving_out := Some (push (Frame frm) q)\<rparr> else vg3)"

definition process_frame ::
  "'mat opencv \<Rightarrow> 'mat CameraFrame \<Rightarrow> 'mat VideoGenerator \<Rightarrow> 'mat VideoGenerator" where
  "process_frame cv frm vg =
     (case bytes_per_pixel (format (stream_format frm)) of
        None \<Rightarrow> log_error Got_invalid_format vg
      | Some bpp \<Rightarrow>
          if invalid_frame_size frm bpp
          then log_error
                 (Invalid_frame_size (size_of (source_frame frm))
                    (height (stream_format frm) * width (stream_format frm) * bpp)) vg
          else
            (case convert_frame cv vg bpp frm of
               (errs, None) \<Rightarrow> vg\<lparr>error_log := error_log vg @ errs\<rparr>
             | (errs, Some frm') \<Rightarrow> fan_out frm' (vg\<lparr>error_log := error_log vg @ errs\<rparr>)))"

text \<open>The \<^verbatim>\<open>switch\<close> on \<^verbatim>\<open>ctl_ptr->op\<close>.\<close>

definition apply_control :: "StackerControl \<Rightarrow> 'mat VideoGenerator \<Rightarrow> 'mat VideoGenerator" where
  "apply_control ctl vg =
     (case op ctl of
        ctl_init \<Rightarrow>
          vg\<lparr>stacking_active := True, stacking_in_process := True,
             debug_active := save_inputs ctl\<rparr>
      | ctl_resume \<Rightarrow> vg\<lparr>stacking_active := True, stacking_in_process := True\<rparr>
      | ctl_pause \<Rightarrow> vg\<lparr>stacking_active := False, stacking_in_process := True\<rparr>
      | ctl_save \<Rightarrow> vg\<lparr>stacking_active := False, stacking_in_process := False\<rparr>
      | ctl_cancel \<Rightarrow> vg\<lparr>stacking_active := False, stacking_in_process := False\<rparr>
      | ctl_update \<Rightarrow> vg)"

text \<open>The three pushes of \<^verbatim>\<open>data_ptr\<close> that follow a shutdown or a control message.\<close>

definition forward :: "'mat QueueData \<Rightarrow> 'mat VideoGenerator \<Rightarrow> 'mat VideoGenerator" where
  "forward data_ptr vg =
     vg\<lparr>live_out := push data_ptr (live_out vg),
        stack_out := push data_ptr (stack_out vg),
        debug_out := push data_ptr (debug_out vg)\<rparr>"

text \<open>One turn of the loop on the message popped: the state after it, and whether the loop breaks.\<close>

fun handle_message ::
  "'mat opencv \<Rightarrow> 'mat QueueData \<Rightarrow> 'mat VideoGenerator \<Rightarrow> bool \<times> 'mat VideoGenerator" where
  "handle_message cv ShutDownData vg = (True, forward ShutDownData vg)"
| "handle_message cv (Frame frm) vg = (False, process_frame cv frm vg)"
| "handle_message cv (Control ctl) vg = (False, forward (Control ctl) (apply_control ctl vg))"
| "handle_message cv Other_data vg = (False, log_error Invalid_data_for_video_generator vg)"

text \<open>
  \<^verbatim>\<open>run\<close>: the loop over the messages waiting in the input queue. It ends in one of two
  ways: \<open>Terminated\<close>, the \<^verbatim>\<open>break\<close> after a shutdown message, with the messages
  behind it left in the queue; or \<open>Blocked\<close>, when the queue is empty and \<^verbatim>\<open>pop\<close> waits.
\<close>

datatype run_status = Terminated | Blocked

fun run_loop ::
  "'mat opencv \<Rightarrow> 'mat QueueData list \<Rightarrow> 'mat VideoGenerator
   \<Rightarrow> run_status \<times> 'mat QueueData list \<times> 'mat VideoGenerator" where
  "run_loop cv [] vg = (Blocked, [], vg)"
| "run_loop cv (data_ptr # waiting) vg =
     (case handle_message cv data_ptr vg of
        (True, vg') \<Rightarrow> (Terminated, waiting, vg')
      | (False, vg') \<Rightarrow> run_loop cv waiting vg')"

definition run :: "'mat opencv \<Rightarrow> 'mat VideoGenerator \<Rightarrow> run_status \<times> 'mat VideoGenerator" where
  "run cv vg =
     (case run_loop cv (data (data_queue vg)) vg of
        (status, waiting, vg') \<Rightarrow> (status, vg'\<lparr>data_queue := (data_queue vg)\<lparr>data := waiting\<rparr>\<rparr>))"

subsection \<open>The stage with the exception of the JPEG encoder\<close>

text \<open>
  \<^verbatim>\<open>cv::imencode\<close> is called in \<^verbatim>\<open>handle_jpeg_stack\<close> outside any \<^verbatim>\<open>try\<close>, and neither
  \<^verbatim>\<open>process_frame\<close> nor \<^verbatim>\<open>run\<close> has a handler: an exception of the encoder leaves
  all three. The definitions above take the call to return. The definitions of this
  subsection are the same functions with that exception written out. The parameter
  \<open>imencode_throws\<close> says on which matrices \<^verbatim>\<open>cv::imencode\<close> throws; where it does not,
  \<open>imencode cv\<close> is the buffer it fills.
\<close>

definition handle_jpeg_stack_x ::
  "('mat \<Rightarrow> bool) \<Rightarrow> 'mat opencv \<Rightarrow> 'mat VideoGenerator \<Rightarrow> 'mat CameraFrame \<Rightarrow> 'mat \<Rightarrow> bool
   \<Rightarrow> 'mat CameraFrame option" where
  "handle_jpeg_stack_x imencode_throws cv vg frm img copy =
     (let factor = 255 / real_of_int (frame_dr frm);
          normalized =
            (if frame_dr frm = 255 \<and> elemSize1 cv img = 1 then img
             else convertTo cv img (if channels cv img = 3 then CV_8UC3 else CV_8UC1) factor)
      in if imencode_throws normalized then None
         else
           (let buf = imencode cv normalized;
                frm1 = frm\<lparr>jpeg_frame := Some buf\<rparr>
            in Some (if stacking_active vg \<or> plate_solving_out vg \<noteq> None
                     then (if copy then frm1\<lparr>frame := clone cv img\<rparr> else frm1\<lparr>frame := img\<rparr>)
                     else frm1)))"

text \<open>
  How a case of the second \<^verbatim>\<open>switch\<close> ends, with the messages it has logged: it
  returns, it breaks with the frame, or an exception passes through it.
\<close>

datatype 'mat switch_exit =
  Returns "log_entry list"
  | Breaks "log_entry list" "'mat CameraFrame"
  | Throws "log_entry list"

definition convert_raw_x ::
  "('mat \<Rightarrow> bool) \<Rightarrow> 'mat opencv \<Rightarrow> 'mat VideoGenerator \<Rightarrow> int32 \<Rightarrow> 'mat CameraFrame
   \<Rightarrow> 'mat switch_exit" where
  "convert_raw_x imencode_throws cv vg bpp frm =
     (let bayer_mat = Mat_header cv (height (stream_format frm)) (width (stream_format frm))
                        (if bpp = 1 then CV_8UC1 else CV_16UC1) (source_frame frm);
          (errs, rgb) = debayer cv (bayer frm) bayer_mat;
          frm1 = frm\<lparr>frame_dr := (if bpp = 1 then 255 else 65535)\<rparr>
      in case handle_jpeg_stack_x imencode_throws cv vg frm1 rgb False of
           None \<Rightarrow> Throws errs
         | Some frm2 \<Rightarrow> Breaks errs (frm2\<lparr>raw := bayer_mat\<rparr>))"

definition convert_mono_x ::
  "('mat \<Rightarrow> bool) \<Rightarrow> 'mat opencv \<Rightarrow> 'mat VideoGenerator \<Rightarrow> int32 \<Rightarrow> 'mat CameraFrame
   \<Rightarrow> 'mat switch_exit" where
  "convert_mono_x imencode_throws cv vg bpp frm =
     (let mono = Mat_header cv (height (stream_format frm)) (width (stream_format frm))
                   (if bpp = 1 then CV_8UC1 else CV_16UC1) (source_frame frm);
          frm1 = frm\<lparr>frame_dr := (if bpp = 1 then 255 else 65535)\<rparr>
      in case handle_jpeg_stack_x imencode_throws cv vg frm1 mono True of
           None \<Rightarrow> Throws []
         | Some frm2 \<Rightarrow> Breaks [] (frm2\<lparr>raw := mono\<rparr>))"

definition convert_frame_x ::
  "('mat \<Rightarrow> bool) \<Rightarrow> 'mat opencv \<Rightarrow> 'mat VideoGenerator \<Rightarrow> int32 \<Rightarrow> 'mat CameraFrame
   \<Rightarrow> 'mat switch_exit" where
  "convert_frame_x imencode_throws cv vg bpp frm =
     (let h = height (stream_format frm); w = width (stream_format frm);
          src = source_frame frm in
      case format (stream_format frm) of
        stream_mjpeg \<Rightarrow>
          (let frm1 = frm\<lparr>jpeg_frame := Some src\<rparr> in
           if stacking_active vg \<or> plate_solving_out vg \<noteq> None then
             (let len = size_of src;
                  buffer = Mat_header cv 1 (ucast len) CV_8UC1 src
              in case imdecode cv buffer of
                   None \<Rightarrow> Returns [Failed_to_extract_jpeg]
                 | Some m \<Rightarrow> Breaks [] (frm1\<lparr>frame := m, frame_dr := 255, raw := m\<rparr>))
           else Breaks [] frm1)
      | stream_yuv2 \<Rightarrow>
          (let yuv2 = Mat_header cv h w CV_8UC2 src;
               rgb = cvtColor cv yuv2 COLOR_YUV2BGR_YUYV;
               frm1 = frm\<lparr>frame_dr := 255, raw := yuv2\<rparr>
           in case handle_jpeg_stack_x imencode_throws cv vg frm1 rgb False of
                None \<Rightarrow> Throws []
              | Some frm2 \<Rightarrow> Breaks [] frm2)
      | stream_rgb24 \<Rightarrow>
          (let rgb = Mat_header cv h w CV_8UC3 src;
               frm1 = frm\<lparr>frame_dr := 255, raw := rgb\<rparr>
           in case handle_jpeg_stack_x imencode_throws cv vg frm1 rgb True of
                None \<Rightarrow> Throws []
              | Some frm2 \<Rightarrow> Breaks [] frm2)
      | stream_rgb48 \<Rightarrow>
          (let rgb = Mat_header cv h w CV_16UC3 src;
               frm1 = frm\<lparr>frame_dr := 65535, raw := rgb\<rparr>
           in case handle_jpeg_stack_x imencode_throws cv vg frm1 rgb False of
                None \<Rightarrow> Throws []
              | Some frm2 \<Rightarrow> Breaks [] frm2)
      | stream_raw8 \<Rightarrow> convert_raw_x imencode_throws cv vg bpp frm
      | stream_raw16 \<Rightarrow> convert_raw_x imencode_throws cv vg bpp frm
      | stream_mono8 \<Rightarrow> convert_mono_x imencode_throws cv vg bpp frm
      | stream_mono16 \<Rightarrow> convert_mono_x imencode_throws cv vg bpp frm
      | stream_error \<Rightarrow> Returns [Got_frame_with_error (bytes_to_string src)])"

text \<open>
  How \<^verbatim>\<open>process_frame\<close> ends: it returns, or the exception leaves it, in either case
  with the stage as it is at that moment.
\<close>

datatype 'mat frame_exit =
  Frame_returns "'mat VideoGenerator"
  | Frame_throws "'mat VideoGenerator"

definition process_frame_x ::
  "('mat \<Rightarrow> bool) \<Rightarrow> 'mat opencv \<Rightarrow> 'mat CameraFrame \<Rightarrow> 'mat VideoGenerator
   \<Rightarrow> 'mat frame_exit" where
  "process_frame_x imencode_throws cv frm vg =
     (case bytes_per_pixel (format (stream_format frm)) of
        None \<Rightarrow> Frame_returns (log_error Got_invalid_format vg)
      | Some bpp \<Rightarrow>
          if invalid_frame_size frm bpp
          then Frame_returns (log_error
                 (Invalid_frame_size (size_of (source_frame frm))
                    (height (stream_format frm) * width (stream_format frm) * bpp)) vg)
          else
            (case convert_frame_x imencode_throws cv vg bpp frm of
               Returns errs \<Rightarrow> Frame_returns (vg\<lparr>error_log := error_log vg @ errs\<rparr>)
             | Breaks errs frm' \<Rightarrow>
                 Frame_returns (fan_out frm' (vg\<lparr>error_log := error_log vg @ errs\<rparr>))
             | Throws errs \<Rightarrow> Frame_throws (vg\<lparr>error_log := error_log vg @ errs\<rparr>)))"

text \<open>
  \<^verbatim>\<open>run\<close> with the exception: besides the \<^verbatim>\<open>break\<close> and the wait on the empty queue,
  the loop ends when an exception leaves \<^verbatim>\<open>process_frame\<close>, with the messages behind
  the frame left in the queue.
\<close>

datatype loop_exit = Loop_terminated | Loop_blocked | Loop_thrown

fun run_loop_x ::
  "('mat \<Rightarrow> bool) \<Rightarrow> 'mat opencv \<Rightarrow> 'mat QueueData list \<Rightarrow> 'mat VideoGenerator
   \<Rightarrow> loop_exit \<times> 'mat QueueData list \<times> 'mat VideoGenerator" where
  "run_loop_x imencode_throws cv [] vg = (Loop_blocked, [], vg)"
| "run_loop_x imencode_throws cv (Frame frm # waiting) vg =
     (case process_frame_x imencode_throws cv frm vg of
        Frame_returns vg' \<Rightarrow> run_loop_x imencode_throws cv waiting vg'
      | Frame_throws vg' \<Rightarrow> (Loop_thrown, waiting, vg'))"
| "run_loop_x imencode_throws cv (data_ptr # waiting) vg =
     (case handle_message cv data_ptr vg of
        (True, vg') \<Rightarrow> (Loop_terminated, waiting, vg')
      | (False, vg') \<Rightarrow> run_loop_x imencode_throws cv waiting vg')"

subsection \<open>Notions used to state the properties\<close>

text \<open>
  A frame passes format processing when none of the returns before the fan-out is taken:
  its tag is one of the eight of the first \<^verbatim>\<open>switch\<close>, the size test does not fire,
  and, for \<^verbatim>\<open>stream_mjpeg\<close> when the image is decoded, decoding does not throw.
\<close>

definition frame_accepted :: "'mat opencv \<Rightarrow> 'mat VideoGenerator \<Rightarrow> 'mat CameraFrame \<Rightarrow> bool" where
  "frame_accepted cv vg frm =
     (case bytes_per_pixel (format (stream_format frm)) of
        None \<Rightarrow> False
      | Some bpp \<Rightarrow>
          \<not> invalid_frame_size frm bpp
          \<and> (format (stream_format frm) = stream_mjpeg
               \<and> (stacking_active vg \<or> plate_solving_out vg \<noteq> None)
             \<longrightarrow> imdecode cv (Mat_header cv 1 (ucast (size_of (source_frame frm))) CV_8UC1
                                (source_frame frm)) \<noteq> None))"

text \<open>
  Everything \<^verbatim>\<open>process_frame\<close> does before the fan-out: the messages it logs, and the
  frame that reaches the pushes, if one does.
\<close>

definition format_pipeline ::
  "'mat opencv \<Rightarrow> 'mat VideoGenerator \<Rightarrow> 'mat CameraFrame
   \<Rightarrow> log_entry list \<times> 'mat CameraFrame option" where
  "format_pipeline cv vg frm =
     (case bytes_per_pixel (format (stream_format frm)) of
        None \<Rightarrow> ([Got_invalid_format], None)
      | Some bpp \<Rightarrow>
          if invalid_frame_size frm bpp
          then ([Invalid_frame_size (size_of (source_frame frm))
                   (height (stream_format frm) * width (stream_format frm) * bpp)], None)
          else convert_frame cv vg bpp frm)"

definition converted_frame ::
  "'mat opencv \<Rightarrow> 'mat VideoGenerator \<Rightarrow> 'mat CameraFrame \<Rightarrow> 'mat CameraFrame option" where
  "converted_frame cv vg frm = snd (format_pipeline cv vg frm)"

text \<open>The number of shutdown messages a queue holds.\<close>

definition sentinels :: "'mat QueueData sync_queue \<Rightarrow> nat" where
  "sentinels q = length (filter (\<lambda>m. m = ShutDownData) (data q))"

text \<open>
  An image library, a stage and frames for trying the definitions out. The library has
  one matrix and decodes every buffer; the stage starts on empty queues.
\<close>

definition example_cv :: "unit opencv" where
  "example_cv =
     \<lparr>Mat_default = (), Mat_header = (\<lambda>rows cols type buf. ()), cvtColor = (\<lambda>m code. ()),
      imdecode = (\<lambda>m. Some ()), imencode = (\<lambda>m. [255, 216]),
      convertTo = (\<lambda>m type factor. ()), elemSize1 = (\<lambda>m. 1), channels = (\<lambda>m. 3),
      clone = (\<lambda>m. ())\<rparr>"

definition example_vg :: "unit QueueData sync_queue option \<Rightarrow> unit VideoGenerator" where
  "example_vg plate =
     new_VideoGenerator empty_queue empty_queue empty_queue empty_queue plate"

definition example_frame ::
  "CamStreamType \<Rightarrow> int32 \<Rightarrow> int32 \<Rightarrow> CamBayerType \<Rightarrow> VideoFrame \<Rightarrow> unit CameraFrame" where
  "example_frame fmt w h pattern buf =
     \<lparr>source_frame = buf, stream_format = \<lparr>format = fmt, width = w, height = h\<rparr>,
      bayer = pattern, frame_dr = 255, frame = (), raw = (), jpeg_frame = None\<rparr>"

definition example_control :: "StackerControl_op \<Rightarrow> bool \<Rightarrow> StackerControl" where
  "example_control operation dbg =
     \<lparr>op = operation, save_inputs = dbg, name = ''m31'', auto_stretch = True\<rparr>"

text \<open>
  A second library, which knows of a matrix only whether it is empty (\<open>True\<close>): the
  default matrix is empty, a header over a buffer is empty when it has no row or no
  column, and colour conversion, \<^verbatim>\<open>convertTo\<close> and \<^verbatim>\<open>clone\<close> keep a matrix empty or not.
  Its encoder throws on the empty matrix and on no other, as \<^verbatim>\<open>cv::imencode\<close> does,
  which begins by checking that the image is not empty.
\<close>

definition empty_aware_cv :: "bool opencv" where
  "empty_aware_cv =
     \<lparr>Mat_default = True, Mat_header = (\<lambda>rows cols type buf. rows = 0 \<or> cols = 0),
      cvtColor = (\<lambda>m code. m), imdecode = (\<lambda>m. Some m), imencode = (\<lambda>m. [255, 216]),
      convertTo = (\<lambda>m type factor. m), elemSize1 = (\<lambda>m. 1),
      channels = (\<lambda>m. if m then 1 else 3), clone = (\<lambda>m. m)\<rparr>"

definition imencode_throws_on_empty :: "bool \<Rightarrow> bool" where
  "imencode_throws_on_empty img = img"

definition example_raw8_frame :: "CamBayerType \<Rightarrow> bool CameraFrame" where
  "example_raw8_frame pattern =
     \<lparr>source_frame = [0, 0], stream_format = \<lparr>format = stream_raw8, width = 2, height = 1\<rparr>,
      bayer = pattern, frame_dr = 255, frame = True, raw = True, jpeg_frame = None\<rparr>"

definition example_stage :: "bool VideoGenerator" where
  "example_stage = new_VideoGenerator empty_queue empty_queue empty_queue empty_queue None"

section \<open>Properties of the taxonomy\<close>

lemma option_type_cases:
  fixes ty :: CamOptionType
  assumes "unat ty < 6"
  shows "ty = 0 \<or> ty = 1 \<or> ty = 2 \<or> ty = 3 \<or> ty = 4 \<or> ty = 5"
  using assms by (simp add: word_unat_eq_iff) arith

lemma option_type_round_trip:
  fixes ty :: CamOptionType
  assumes "unat ty < 6"
  shows "round_trip cam_option_type_to_str cam_option_type_from_str ty = Inr ty"
  using option_type_cases [OF assms]
  by (auto simp: round_trip_def cam_option_type_to_str_def cam_option_type_from_str_def
      cam_option_type_names_def)

lemma stream_round_trip:
  "tag \<noteq> stream_error \<Longrightarrow> round_trip stream_type_to_str stream_type_from_str tag = Inr tag"
  by (cases tag) (simp_all add: round_trip_def stream_type_from_str_def)

lemma bayer_round_trip:
  "round_trip bayer_type_to_str bayer_type_from_str b = Inr b"
  by (cases b) (simp_all add: round_trip_def bayer_type_from_str_def)

lemma stream_from_str_unknown:
  "s \<notin> set stream_type_names \<Longrightarrow>
     stream_type_from_str s = Inl (CamError (''Invalid stream type '' @ s))"
  by (simp add: stream_type_names_def stream_type_from_str_def)

lemma bayer_from_str_unknown:
  "s \<notin> set bayer_type_names \<Longrightarrow>
     bayer_type_from_str s = Inl (CamError (''Invalid bayer format '' @ s))"
  by (simp add: bayer_type_names_def bayer_type_from_str_def)

lemma option_from_str_unknown:
  "s \<notin> set cam_option_type_names \<Longrightarrow>
     cam_option_type_from_str s = Inl (CamError (''Invalid type:'' @ s))"
  by (auto simp add: cam_option_type_names_def cam_option_type_from_str_def)

lemma stream_encoding_round_trip:
  "stream_type_to_str tag = Inr enc \<Longrightarrow> stream_type_from_str enc = Inr tag"
  by (cases tag) (auto simp: stream_type_from_str_def)

lemma encoded_stream_round_trip:
  "tag \<in> set encoded_stream_types \<Longrightarrow>
     round_trip stream_type_to_str stream_type_from_str tag = Inr tag"
  by (rule stream_round_trip) (auto simp: encoded_stream_types_def)

text \<open>
  C8. For every stream-format tag that has a string encoding (the eight tags
  \<^verbatim>\<open>yuv2\<close>, \<^verbatim>\<open>mjpeg\<close>, \<^verbatim>\<open>rgb24\<close>, \<^verbatim>\<open>rgb48\<close>, \<^verbatim>\<open>raw8\<close>, \<^verbatim>\<open>raw16\<close>, \<^verbatim>\<open>mono8\<close>,
  \<^verbatim>\<open>mono16\<close>; whenever \<^verbatim>\<open>stream_type_to_str\<close> returns a string at all), for every Bayer
  tag and for every option-value-type tag (the values 0 to 5), converting the tag to its
  string and back returns the tag; and each of the three conversions from a string raises
  the domain error on every string that is not one of its encodings.
\<close>

theorem taxonomy_round_trip:
  "(tag \<in> set encoded_stream_types \<longrightarrow>
      round_trip stream_type_to_str stream_type_from_str tag = Inr tag)
   \<and> (stream_type_to_str tag = Inr enc \<longrightarrow> stream_type_from_str enc = Inr tag)
   \<and> round_trip bayer_type_to_str bayer_type_from_str b = Inr b
   \<and> (unat ty < 6 \<longrightarrow>
      round_trip cam_option_type_to_str cam_option_type_from_str ty = Inr ty)
   \<and> (s \<notin> set stream_type_names \<longrightarrow>
      stream_type_from_str s = Inl (CamError (''Invalid stream type '' @ s)))
   \<and> (s \<notin> set bayer_type_names \<longrightarrow>
      bayer_type_from_str s = Inl (CamError (''Invalid bayer format '' @ s)))
   \<and> (s \<notin> set cam_option_type_names \<longrightarrow>
      cam_option_type_from_str s = Inl (CamError (''Invalid type:'' @ s)))"
  using encoded_stream_round_trip [of tag] stream_encoding_round_trip [of tag enc]
    bayer_round_trip [of b] option_type_round_trip [of ty]
    stream_from_str_unknown [of s] bayer_from_str_unknown [of s] option_from_str_unknown [of s]
  by blast

theorem taxonomy_round_trip_witness:
  "stream_raw8 \<in> set encoded_stream_types
   \<and> round_trip stream_type_to_str stream_type_from_str stream_raw8 = Inr stream_raw8
   \<and> stream_type_to_str stream_raw8 = Inr ''raw8''
   \<and> stream_type_from_str ''raw8'' = Inr stream_raw8
   \<and> round_trip bayer_type_to_str bayer_type_from_str bayer_gr = Inr bayer_gr
   \<and> unat (2 :: CamOptionType) < 6
   \<and> round_trip cam_option_type_to_str cam_option_type_from_str 2 = Inr 2
   \<and> ''jpeg'' \<notin> set stream_type_names
   \<and> stream_type_from_str ''jpeg'' = Inl (CamError ''Invalid stream type jpeg'')
   \<and> ''jpeg'' \<notin> set bayer_type_names
   \<and> bayer_type_from_str ''jpeg'' = Inl (CamError ''Invalid bayer format jpeg'')
   \<and> ''jpeg'' \<notin> set cam_option_type_names
   \<and> cam_option_type_from_str ''jpeg'' = Inl (CamError ''Invalid type:jpeg'')"
proof -
  have h: "stream_raw8 \<in> set encoded_stream_types"
      "stream_type_to_str stream_raw8 = Inr ''raw8''"
      "unat (2 :: CamOptionType) < 6"
      "''jpeg'' \<notin> set stream_type_names" "''jpeg'' \<notin> set bayer_type_names"
      "''jpeg'' \<notin> set cam_option_type_names"
    by (simp_all add: encoded_stream_types_def stream_type_names_def bayer_type_names_def
        cam_option_type_names_def)
  from taxonomy_round_trip [where tag = stream_raw8 and enc = "''raw8''" and b = bayer_gr
      and ty = 2 and s = "''jpeg''"] h
  show ?thesis
    by simp
qed

section \<open>Properties of the driver registry\<close>

lemma load_driver_present:
  "n \<in> set (driver_names r) \<Longrightarrow> load_driver env n base_path opt r = (Inr (), r)"
  by (simp add: load_driver_def)

lemma load_driver_success:
  assumes "load_driver env n base_path opt r = (Inr (), r')"
    and "n \<notin> set (driver_names r)"
  shows "\<exists>h func. dlopen env (driver_path n base_path) = Some h
           \<and> dlsym env h (''ols_get_'' @ n @ ''_driver'') = Some func
           \<and> driver_names r' = n # driver_names r
           \<and> driver_calls r' = func # driver_calls r"
  using assms
  by (auto simp: load_driver_def Let_def insert_driver_def traced_def
      split: option.splits if_splits)

lemma get_first:
  assumes "driver_calls r = func # rest"
  shows "get env 0 external_option r =
           ((case call_generator env func external_option of
               None \<Rightarrow> Inl (CamError ''Failed to load camera 0'')
             | Some d \<Rightarrow> Inr d),
            traced (Generator_call func external_option) r)"
  using assms
  by (simp add: get_def Let_def to_string_def string_of_nat.simps split: option.splits)

text \<open>
  C5. Loading three different drivers \<open>a\<close>, then \<open>b\<close>, then \<open>c\<close> into the empty
  registry, each load succeeding, leaves the names in the order \<open>[c, b, a]\<close>;
  \<^verbatim>\<open>get(0, opt)\<close> calls the factory that \<^verbatim>\<open>dlsym\<close> resolved for \<open>c\<close> and nothing else;
  and loading again any of the three names succeeds and leaves the registry, with the
  list of the calls made to the loader, as it was.
\<close>

theorem driver_registry_order:
  assumes "distinct [a, b, c]"
    and "load_driver env a base_a opt_a empty_registry = (Inr (), r1)"
    and "load_driver env b base_b opt_b r1 = (Inr (), r2)"
    and "load_driver env c base_c opt_c r2 = (Inr (), r3)"
  shows "drivers r3 = [c, b, a]
    \<and> (\<exists>h func. dlopen env (driver_path c base_c) = Some h
          \<and> dlsym env h (''ols_get_'' @ c @ ''_driver'') = Some func
          \<and> get env 0 external_option r3 =
              ((case call_generator env func external_option of
                  None \<Rightarrow> Inl (CamError ''Failed to load camera 0'')
                | Some d \<Rightarrow> Inr d),
               traced (Generator_call func external_option) r3))
    \<and> (n \<in> {a, b, c} \<longrightarrow> load_driver env n base_n opt_n r3 = (Inr (), r3))"
proof -
  from assms(1) have ab: "a \<noteq> b" and ac: "a \<noteq> c" and bc: "b \<noteq> c"
    by simp_all
  have "a \<notin> set (driver_names empty_registry)"
    by (simp add: empty_registry_def)
  from load_driver_success [OF assms(2) this]
  have n1: "driver_names r1 = [a]"
    by (auto simp: empty_registry_def)
  with ab have "b \<notin> set (driver_names r1)"
    by simp
  from load_driver_success [OF assms(3) this] n1
  have n2: "driver_names r2 = [b, a]"
    by auto
  with ac bc have "c \<notin> set (driver_names r2)"
    by simp
  from load_driver_success [OF assms(4) this] n2
  obtain h func where c: "dlopen env (driver_path c base_c) = Some h"
      "dlsym env h (''ols_get_'' @ c @ ''_driver'') = Some func"
      "driver_names r3 = [c, b, a]" "driver_calls r3 = func # driver_calls r2"
    by auto
  have order: "drivers r3 = [c, b, a]"
    using c(3) by (simp add: drivers_def)
  have factory: "\<exists>h func. dlopen env (driver_path c base_c) = Some h
          \<and> dlsym env h (''ols_get_'' @ c @ ''_driver'') = Some func
          \<and> get env 0 external_option r3 =
              ((case call_generator env func external_option of
                  None \<Rightarrow> Inl (CamError ''Failed to load camera 0'')
                | Some d \<Rightarrow> Inr d),
               traced (Generator_call func external_option) r3)"
    using c(1,2) get_first [OF c(4)] by blast
  have again: "n \<in> {a, b, c} \<longrightarrow> load_driver env n base_n opt_n r3 = (Inr (), r3)"
    using c(3) load_driver_present [of n r3 env base_n opt_n] by auto
  from order factory again show ?thesis
    by blast
qed

theorem driver_registry_order_witness:
  "distinct [''a'', ''b'', ''c'']
   \<and> load_driver example_env ''a'' ''/lib'' None empty_registry =
       (Inr (), \<lparr>driver_names = [''a''], driver_calls = [10],
                 dl_trace = [Dlopen ''/lib/libols_driver_a.so'', Dlsym 1 ''ols_get_a_driver'']\<rparr>)
   \<and> load_driver example_env ''b'' ''/lib'' None
         \<lparr>driver_names = [''a''], driver_calls = [10],
          dl_trace = [Dlopen ''/lib/libols_driver_a.so'', Dlsym 1 ''ols_get_a_driver'']\<rparr> =
       (Inr (), \<lparr>driver_names = [''b'', ''a''], driver_calls = [20, 10],
                 dl_trace = [Dlopen ''/lib/libols_driver_a.so'', Dlsym 1 ''ols_get_a_driver'',
                             Dlopen ''/lib/libols_driver_b.so'', Dlsym 2 ''ols_get_b_driver'']\<rparr>)
   \<and> load_driver example_env ''c'' ''/lib'' None
         \<lparr>driver_names = [''b'', ''a''], driver_calls = [20, 10],
          dl_trace = [Dlopen ''/lib/libols_driver_a.so'', Dlsym 1 ''ols_get_a_driver'',
                      Dlopen ''/lib/libols_driver_b.so'', Dlsym 2 ''ols_get_b_driver'']\<rparr> =
       (Inr (), \<lparr>driver_names = [''c'', ''b'', ''a''], driver_calls = [30, 20, 10],
                 dl_trace = [Dlopen ''/lib/libols_driver_a.so'', Dlsym 1 ''ols_get_a_driver'',
                             Dlopen ''/lib/libols_driver_b.so'', Dlsym 2 ''ols_get_b_driver'',
                             Dlopen ''/lib/libols_driver_c.so'', Dlsym 3 ''ols_get_c_driver'']\<rparr>)
   \<and> drivers \<lparr>driver_names = [''c'', ''b'', ''a''], driver_calls = [30, 20, 10],
               dl_trace = [Dlopen ''/lib/libols_driver_a.so'', Dlsym 1 ''ols_get_a_driver'',
                           Dlopen ''/lib/libols_driver_b.so'', Dlsym 2 ''ols_get_b_driver'',
                           Dlopen ''/lib/libols_driver_c.so'', Dlsym 3 ''ols_get_c_driver'']\<rparr>
       = [''c'', ''b'', ''a'']
   \<and> ''b'' \<in> {''a'', ''b'', ''c''}
   \<and> load_driver example_env ''b'' ''/elsewhere'' (Some ''cfg'')
         \<lparr>driver_names = [''c'', ''b'', ''a''], driver_calls = [30, 20, 10],
          dl_trace = [Dlopen ''/lib/libols_driver_a.so'', Dlsym 1 ''ols_get_a_driver'',
                      Dlopen ''/lib/libols_driver_b.so'', Dlsym 2 ''ols_get_b_driver'',
                      Dlopen ''/lib/libols_driver_c.so'', Dlsym 3 ''ols_get_c_driver'']\<rparr> =
       (Inr (), \<lparr>driver_names = [''c'', ''b'', ''a''], driver_calls = [30, 20, 10],
                 dl_trace = [Dlopen ''/lib/libols_driver_a.so'', Dlsym 1 ''ols_get_a_driver'',
                             Dlopen ''/lib/libols_driver_b.so'', Dlsym 2 ''ols_get_b_driver'',
                             Dlopen ''/lib/libols_driver_c.so'', Dlsym 3 ''ols_get_c_driver'']\<rparr>)"
proof -
  have d: "distinct [''a'', ''b'', ''c'']"
    by simp
  have l1: "load_driver example_env ''a'' ''/lib'' None empty_registry =
       (Inr (), \<lparr>driver_names = [''a''], driver_calls = [10],
                 dl_trace = [Dlopen ''/lib/libols_driver_a.so'', Dlsym 1 ''ols_get_a_driver'']\<rparr>)"
    by (simp add: load_driver_def example_env_def empty_registry_def Let_def traced_def
        insert_driver_def driver_path_def)
  have l2: "load_driver example_env ''b'' ''/lib'' None
         \<lparr>driver_names = [''a''], driver_calls = [10],
          dl_trace = [Dlopen ''/lib/libols_driver_a.so'', Dlsym 1 ''ols_get_a_driver'']\<rparr> =
       (Inr (), \<lparr>driver_names = [''b'', ''a''], driver_calls = [20, 10],
                 dl_trace = [Dlopen ''/lib/libols_driver_a.so'', Dlsym 1 ''ols_get_a_driver'',
                             Dlopen ''/lib/libols_driver_b.so'', Dlsym 2 ''ols_get_b_driver'']\<rparr>)"
    by (simp add: load_driver_def example_env_def Let_def traced_def
        insert_driver_def driver_path_def)
  have l3: "load_driver example_env ''c'' ''/lib'' None
         \<lparr>driver_names = [''b'', ''a''], driver_calls = [20, 10],
          dl_trace = [Dlopen ''/lib/libols_driver_a.so'', Dlsym 1 ''ols_get_a_driver'',
                      Dlopen ''/lib/libols_driver_b.so'', Dlsym 2 ''ols_get_b_driver'']\<rparr> =
       (Inr (), \<lparr>driver_names = [''c'', ''b'', ''a''], driver_calls = [30, 20, 10],
                 dl_trace = [Dlopen ''/lib/libols_driver_a.so'', Dlsym 1 ''ols_get_a_driver'',
                             Dlopen ''/lib/libols_driver_b.so'', Dlsym 2 ''ols_get_b_driver'',
                             Dlopen ''/lib/libols_driver_c.so'', Dlsym 3 ''ols_get_c_driver'']\<rparr>)"
    by (simp add: load_driver_def example_env_def Let_def traced_def
        insert_driver_def driver_path_def)
  have m: "''b'' \<in> {''a'', ''b'', ''c''}"
    by simp
  from driver_registry_order [OF d l1 l2 l3, where n = "''b''" and base_n = "''/elsewhere''"
      and opt_n = "Some ''cfg''"] d l1 l2 l3 m
  show ?thesis
    by blast
qed

section \<open>Properties of the dispatch stage\<close>

subsection \<open>What each step does to each member\<close>

lemma flags_fan_out [simp]:
  "stacking_active (fan_out frm vg) = stacking_active vg"
  "stacking_in_process (fan_out frm vg) = stacking_in_process vg"
  "debug_active (fan_out frm vg) = debug_active vg"
  "error_log (fan_out frm vg) = error_log vg"
  "data_queue (fan_out frm vg) = data_queue vg"
  "(plate_solving_out (fan_out frm vg) = None) = (plate_solving_out vg = None)"
  by (simp_all add: fan_out_def Let_def split: option.splits)

lemma outs_fan_out:
  "live_out (fan_out frm vg) = push (Frame frm) (live_out vg)"
  "stack_out (fan_out frm vg) =
     (if stacking_active vg then push (Frame frm) (stack_out vg) else stack_out vg)"
  "debug_out (fan_out frm vg) =
     (if debug_active vg \<and> stacking_active vg then push (Frame frm) (debug_out vg)
      else debug_out vg)"
  "plate_solving_out (fan_out frm vg) =
     (case plate_solving_out vg of
        None \<Rightarrow> None
      | Some q \<Rightarrow> Some (if \<not> stacking_in_process vg then push (Frame frm) q else q))"
  by (simp_all add: fan_out_def Let_def split: option.splits)

lemma process_frame_pipeline:
  "process_frame cv frm vg =
     (case format_pipeline cv vg frm of
        (errs, None) \<Rightarrow> vg\<lparr>error_log := error_log vg @ errs\<rparr>
      | (errs, Some frm') \<Rightarrow> fan_out frm' (vg\<lparr>error_log := error_log vg @ errs\<rparr>))"
  by (simp add: process_frame_def format_pipeline_def log_error_def split: option.splits)

lemma convert_raw_Some: "snd (convert_raw cv vg bpp frm) \<noteq> None"
  by (simp add: convert_raw_def Let_def split: prod.splits)

lemma convert_mono_Some: "snd (convert_mono cv vg bpp frm) \<noteq> None"
  by (simp add: convert_mono_def Let_def)

lemma accepted_iff_converted:
  "frame_accepted cv vg frm \<longleftrightarrow> converted_frame cv vg frm \<noteq> None"
  using convert_raw_Some [of cv vg _ frm] convert_mono_Some [of cv vg _ frm]
  by (cases "format (stream_format frm)")
    (auto simp: frame_accepted_def converted_frame_def format_pipeline_def convert_frame_def
      Let_def split: option.splits)

lemma process_frame_dropped:
  assumes "converted_frame cv vg frm = None"
  shows "process_frame cv frm vg = vg\<lparr>error_log := error_log vg @ fst (format_pipeline cv vg frm)\<rparr>"
  using assms
  by (cases "format_pipeline cv vg frm")
    (simp add: process_frame_pipeline converted_frame_def)

lemma process_frame_forwarded:
  assumes "converted_frame cv vg frm = Some frm'"
  shows "process_frame cv frm vg =
           fan_out frm' (vg\<lparr>error_log := error_log vg @ fst (format_pipeline cv vg frm)\<rparr>)"
  using assms
  by (cases "format_pipeline cv vg frm")
    (simp add: process_frame_pipeline converted_frame_def)

lemma flags_process_frame [simp]:
  "stacking_active (process_frame cv frm vg) = stacking_active vg"
  "stacking_in_process (process_frame cv frm vg) = stacking_in_process vg"
  "debug_active (process_frame cv frm vg) = debug_active vg"
  "data_queue (process_frame cv frm vg) = data_queue vg"
  "(plate_solving_out (process_frame cv frm vg) = None) = (plate_solving_out vg = None)"
  by (cases "format_pipeline cv vg frm"; cases "snd (format_pipeline cv vg frm)";
      simp add: process_frame_pipeline)+

lemma fields_apply_control [simp]:
  "live_out (apply_control ctl vg) = live_out vg"
  "stack_out (apply_control ctl vg) = stack_out vg"
  "debug_out (apply_control ctl vg) = debug_out vg"
  "plate_solving_out (apply_control ctl vg) = plate_solving_out vg"
  "data_queue (apply_control ctl vg) = data_queue vg"
  "error_log (apply_control ctl vg) = error_log vg"
  by (cases "op ctl"; simp add: apply_control_def)+

lemma fields_forward [simp]:
  "live_out (forward m vg) = push m (live_out vg)"
  "stack_out (forward m vg) = push m (stack_out vg)"
  "debug_out (forward m vg) = push m (debug_out vg)"
  "plate_solving_out (forward m vg) = plate_solving_out vg"
  "data_queue (forward m vg) = data_queue vg"
  "error_log (forward m vg) = error_log vg"
  "stacking_active (forward m vg) = stacking_active vg"
  "stacking_in_process (forward m vg) = stacking_in_process vg"
  "debug_active (forward m vg) = debug_active vg"
  by (simp_all add: forward_def)

subsection \<open>Control messages\<close>

text \<open>
  C3. A control message does not end the loop; it sets the three flags by the
  transition table (\<^verbatim>\<open>init\<close>: true, true, the carried flag; \<^verbatim>\<open>resume\<close>: true, true,
  debug unchanged; \<^verbatim>\<open>pause\<close>: false, true, debug unchanged; \<^verbatim>\<open>save\<close> and
  \<^verbatim>\<open>cancel\<close>: false, false, debug unchanged; \<^verbatim>\<open>update\<close>: nothing changes); and the
  message itself is pushed to the live, stack and debug outputs, the plate-solving
  output staying as it was.
\<close>

theorem control_transition_table:
  "\<not> fst (handle_message cv (Control ctl) vg)
   \<and> (stacking_active (snd (handle_message cv (Control ctl) vg)),
      stacking_in_process (snd (handle_message cv (Control ctl) vg)),
      debug_active (snd (handle_message cv (Control ctl) vg))) =
       (case op ctl of
          ctl_init \<Rightarrow> (True, True, save_inputs ctl)
        | ctl_resume \<Rightarrow> (True, True, debug_active vg)
        | ctl_pause \<Rightarrow> (False, True, debug_active vg)
        | ctl_save \<Rightarrow> (False, False, debug_active vg)
        | ctl_cancel \<Rightarrow> (False, False, debug_active vg)
        | ctl_update \<Rightarrow> (stacking_active vg, stacking_in_process vg, debug_active vg))
   \<and> live_out (snd (handle_message cv (Control ctl) vg)) = push (Control ctl) (live_out vg)
   \<and> stack_out (snd (handle_message cv (Control ctl) vg)) = push (Control ctl) (stack_out vg)
   \<and> debug_out (snd (handle_message cv (Control ctl) vg)) = push (Control ctl) (debug_out vg)
   \<and> plate_solving_out (snd (handle_message cv (Control ctl) vg)) = plate_solving_out vg"
  by (cases "op ctl") (simp_all add: apply_control_def)

subsection \<open>The size test\<close>

lemma size_cast: "(ucast (size_of buf) :: int32) = of_nat (length buf)"
  by (simp add: size_of_def word_unat_eq_iff unsigned_ucast_eq unsigned_of_nat take_bit_take_bit)

lemma product_word:
  fixes h w bpp :: int32
  shows "h * w * bpp = word_of_int (sint h * sint w * sint bpp)"
  by simp

lemma size_test_exact:
  fixes h w bpp :: int32
  assumes "int n = sint h * sint w * sint bpp"
  shows "(of_nat n :: int32) = h * w * bpp"
proof -
  have "(of_nat n :: int32) = word_of_int (int n)" by simp
  also have "\<dots> = word_of_int (sint h * sint w * sint bpp)" using assms by simp
  also have "\<dots> = h * w * bpp" by simp
  finally show ?thesis .
qed

lemma size_test_fires:
  fixes h w bpp :: int32
  assumes "n < 2 ^ 31"
    and "- (2 ^ 31) \<le> sint h * sint w * sint bpp" and "sint h * sint w * sint bpp < 2 ^ 31"
    and "int n \<noteq> sint h * sint w * sint bpp"
  shows "(of_nat n :: int32) \<noteq> h * w * bpp"
proof
  assume eq: "(of_nat n :: int32) = h * w * bpp"
  have "sint (of_nat n :: int32) = int n"
    using assms(1) by (simp add: signed_of_nat signed_take_bit_int_eq_self)
  moreover have "sint (h * w * bpp) = sint (word_of_int (sint h * sint w * sint bpp) :: int32)"
    by (subst product_word) (rule refl)
  then have "sint (h * w * bpp) = sint h * sint w * sint bpp"
    using assms(2,3) by (simp only: sint_sbintrunc') (simp add: signed_take_bit_int_eq_self)
  ultimately show False using eq assms(4) by simp
qed


lemma invalid_frame_size_iff:
  "invalid_frame_size frm bpp \<longleftrightarrow>
     0 <s bpp \<and> (of_nat (length (source_frame frm)) :: int32)
        \<noteq> height (stream_format frm) * width (stream_format frm) * bpp"
  by (simp add: invalid_frame_size_def size_cast)

text \<open>
  Where the test does its work. For a frame of a fixed-size format (1 byte a pixel for
  \<^verbatim>\<open>mono8\<close> and \<^verbatim>\<open>raw8\<close>, 2 for \<^verbatim>\<open>yuv2\<close>, \<^verbatim>\<open>mono16\<close> and \<^verbatim>\<open>raw16\<close>, 3 for
  \<^verbatim>\<open>rgb24\<close>, 6 for \<^verbatim>\<open>rgb48\<close>) whose buffer length and whose width times height times
  bytes a pixel are both in the range of \<^verbatim>\<open>int\<close>: if the two differ, the stage logs the
  two sizes and nothing else changes. For \<^verbatim>\<open>mjpeg\<close> the number of bytes a pixel is
  \<open>-1\<close> and the test never fires.
\<close>

lemma size_mismatch_dropped_in_int_range:
  fixes n :: int
  assumes "(format (stream_format frm), n) \<in> set
             [(stream_mono8, 1), (stream_raw8, 1), (stream_yuv2, 2), (stream_mono16, 2),
              (stream_raw16, 2), (stream_rgb24, 3), (stream_rgb48, 6)]"
    and "length (source_frame frm) < 2 ^ 31"
    and "- (2 ^ 31) \<le> sint (height (stream_format frm)) * sint (width (stream_format frm)) * n"
    and "sint (height (stream_format frm)) * sint (width (stream_format frm)) * n < 2 ^ 31"
    and "int (length (source_frame frm))
           \<noteq> sint (width (stream_format frm)) * sint (height (stream_format frm)) * n"
  shows "process_frame cv frm vg =
           vg\<lparr>error_log := error_log vg @
              [Invalid_frame_size (size_of (source_frame frm))
                 (height (stream_format frm) * width (stream_format frm) * word_of_int n)]\<rparr>
         \<and> bytes_per_pixel stream_mjpeg = Some (- 1)
         \<and> \<not> invalid_frame_size frm' (- 1)"
proof -
  let ?bpp = "word_of_int n :: int32"
  from assms(1) have bpp: "bytes_per_pixel (format (stream_format frm)) = Some ?bpp"
    and pos: "0 <s ?bpp" and n: "sint ?bpp = n"
    by (auto simp: word_sless_alt)
  have "(of_nat (length (source_frame frm)) :: int32)
          \<noteq> height (stream_format frm) * width (stream_format frm) * ?bpp"
    using assms(2-5) n
    by (intro size_test_fires) (simp_all add: mult.commute)
  with pos have "invalid_frame_size frm ?bpp"
    by (simp add: invalid_frame_size_iff)
  with bpp have "process_frame cv frm vg =
           vg\<lparr>error_log := error_log vg @
              [Invalid_frame_size (size_of (source_frame frm))
                 (height (stream_format frm) * width (stream_format frm) * ?bpp)]\<rparr>"
    by (simp add: process_frame_def log_error_def)
  moreover have "\<not> invalid_frame_size frm' (- 1)"
    by (simp add: invalid_frame_size_def word_sless_alt)
  ultimately show ?thesis by simp
qed

lemma size_mismatch_dropped_example:
  "process_frame example_cv (example_frame stream_raw8 100 50 bayer_rg (replicate 4999 0))
       (example_vg None) =
     (example_vg None)\<lparr>error_log := [Invalid_frame_size 4999 5000]\<rparr>"
  using size_mismatch_dropped_in_int_range [where frm = "example_frame stream_raw8 100 50 bayer_rg (replicate 4999 0)"
      and n = 1 and cv = example_cv and vg = "example_vg None"
      and frm' = "example_frame stream_mjpeg 100 50 bayer_na []"]
  by (simp add: example_frame_def example_vg_def new_VideoGenerator_def size_of_def)

text \<open>
  C6, on the code. The test is \<^verbatim>\<open>int(size) != height*width*bpp\<close>: it compares the
  length cut to 32 bits, while the message it logs prints the whole length. A \<^verbatim>\<open>raw8\<close>
  frame that declares 100 by 50 pixels and carries 4294972296 bytes, which is 5000 after
  the cut, is not a frame of 5000 bytes, yet nothing is logged and the frame is pushed to
  the live output.
\<close>

theorem oversized_raw8_frame_forwarded:
  "length (source_frame (example_frame stream_raw8 100 50 bayer_rg (replicate 4294972296 0)))
     \<noteq> 100 * 50 * 1
   \<and> error_log (process_frame example_cv
          (example_frame stream_raw8 100 50 bayer_rg (replicate 4294972296 0))
          (example_vg None)) = []
   \<and> data (live_out (process_frame example_cv
          (example_frame stream_raw8 100 50 bayer_rg (replicate 4294972296 0))
          (example_vg None)))
     = [Frame ((example_frame stream_raw8 100 50 bayer_rg (replicate 4294972296 0))
          \<lparr>jpeg_frame := Some [255, 216]\<rparr>)]"
  by (simp add: process_frame_def invalid_frame_size_def size_of_def convert_frame_def
      convert_raw_def handle_jpeg_stack_def fan_out_def push_def Let_def
      example_cv_def example_vg_def example_frame_def new_VideoGenerator_def empty_queue_def)

subsection \<open>Frames with the error tag\<close>

text \<open>
  C4, on the code. A frame tagged \<^verbatim>\<open>stream_error\<close> whose buffer spells \<open>no signal\<close>
  is dropped, but by the \<^verbatim>\<open>default\<close> of the first \<^verbatim>\<open>switch\<close>: the one message logged
  is "Got invalid format", and the case of the second \<^verbatim>\<open>switch\<close> that would log the
  buffer as text is never reached.
\<close>

theorem error_tag_frame_logged_as_invalid_format:
  "process_frame example_cv
       (example_frame stream_error 0 0 bayer_na [110, 111, 32, 115, 105, 103, 110, 97, 108])
       (example_vg None) =
     (example_vg None)\<lparr>error_log := [Got_invalid_format]\<rparr>
   \<and> bytes_to_string [110, 111, 32, 115, 105, 103, 110, 97, 108] = ''no signal''"
proof -
  have "bytes_to_string [110, 111, 32, 115, 105, 103, 110, 97, 108] = ''no signal''"
    by code_simp
  then show ?thesis
    by (simp add: process_frame_def log_error_def example_frame_def example_vg_def
      new_VideoGenerator_def)
qed

subsection \<open>The loop and the shutdown message\<close>

lemma handle_message_continues:
  "m \<noteq> ShutDownData \<Longrightarrow> \<not> fst (handle_message cv m vg)"
  by (cases m) simp_all

lemma run_loop_shutdown:
  assumes "ShutDownData \<notin> set before"
  shows "run_loop cv (before @ ShutDownData # behind) vg =
           (Terminated, behind, forward ShutDownData (snd (snd (run_loop cv before vg))))"
  using assms
proof (induction before arbitrary: vg)
  case Nil
  show ?case by simp
next
  case (Cons m ms)
  then have "m \<noteq> ShutDownData" and ms: "ShutDownData \<notin> set ms"
    by auto
  then have "\<not> fst (handle_message cv m vg)"
    by (simp add: handle_message_continues)
  then obtain vg' where "handle_message cv m vg = (False, vg')"
    by (cases "handle_message cv m vg") auto
  with Cons.IH [OF ms, of vg'] show ?case
    by simp
qed

lemma run_loop_blocked:
  assumes "ShutDownData \<notin> set msgs"
  shows "fst (run_loop cv msgs vg) = Blocked \<and> fst (snd (run_loop cv msgs vg)) = []"
  using assms
proof (induction msgs arbitrary: vg)
  case Nil
  show ?case by simp
next
  case (Cons m ms)
  then have "m \<noteq> ShutDownData" and ms: "ShutDownData \<notin> set ms"
    by auto
  then have "\<not> fst (handle_message cv m vg)"
    by (simp add: handle_message_continues)
  then obtain vg' where "handle_message cv m vg = (False, vg')"
    by (cases "handle_message cv m vg") auto
  with Cons.IH [OF ms, of vg'] show ?case
    by simp
qed

lemma sentinels_push:
  "sentinels (push m q) = (if m = ShutDownData then Suc (sentinels q) else sentinels q)"
  by (simp add: sentinels_def push_def)

lemma sentinels_process_frame:
  "sentinels (live_out (process_frame cv frm vg)) = sentinels (live_out vg)
   \<and> sentinels (stack_out (process_frame cv frm vg)) = sentinels (stack_out vg)
   \<and> sentinels (debug_out (process_frame cv frm vg)) = sentinels (debug_out vg)"
proof (cases "format_pipeline cv vg frm")
  case (Pair errs res)
  then show ?thesis
    by (cases res) (simp_all add: process_frame_pipeline outs_fan_out sentinels_push)
qed

lemma sentinels_handle_message:
  assumes "m \<noteq> ShutDownData"
  shows "sentinels (live_out (snd (handle_message cv m vg))) = sentinels (live_out vg)
     \<and> sentinels (stack_out (snd (handle_message cv m vg))) = sentinels (stack_out vg)
     \<and> sentinels (debug_out (snd (handle_message cv m vg))) = sentinels (debug_out vg)"
proof (cases m)
  case ShutDownData
  with assms show ?thesis by simp
next
  case (Frame frm)
  then show ?thesis by (simp add: sentinels_process_frame)
next
  case (Control ctl)
  then show ?thesis by (simp add: sentinels_push)
next
  case Other_data
  then show ?thesis by (simp add: log_error_def)
qed

lemma sentinels_run_loop:
  assumes "ShutDownData \<notin> set msgs"
  shows "sentinels (live_out (snd (snd (run_loop cv msgs vg)))) = sentinels (live_out vg)
       \<and> sentinels (stack_out (snd (snd (run_loop cv msgs vg)))) = sentinels (stack_out vg)
       \<and> sentinels (debug_out (snd (snd (run_loop cv msgs vg)))) = sentinels (debug_out vg)"
  using assms
proof (induction msgs arbitrary: vg)
  case Nil
  show ?case by simp
next
  case (Cons m ms)
  then have m: "m \<noteq> ShutDownData" and ms: "ShutDownData \<notin> set ms"
    by auto
  then have "\<not> fst (handle_message cv m vg)"
    by (simp add: handle_message_continues)
  then obtain vg' where h: "handle_message cv m vg = (False, vg')"
    by (cases "handle_message cv m vg") auto
  with sentinels_handle_message [OF m, of cv vg]
  have "sentinels (live_out vg') = sentinels (live_out vg)
     \<and> sentinels (stack_out vg') = sentinels (stack_out vg)
     \<and> sentinels (debug_out vg') = sentinels (debug_out vg)"
    by simp
  with Cons.IH [OF ms, of vg'] h show ?case
    by simp
qed

text \<open>
  C7. When the input queue holds messages without a shutdown message, then a shutdown
  message, then anything: \<^verbatim>\<open>run\<close> returns; the messages behind the shutdown message
  are still in the input queue, and the outputs are those reached before it with the
  shutdown message pushed to the live, the stack and the debug output (the plate-solving
  output gets none), so nothing behind it was popped or forwarded; and each of the three
  outputs holds exactly one shutdown message more than at the start.
\<close>

theorem shutdown_forwarded_once:
  assumes "ShutDownData \<notin> set before"
    and "data (data_queue vg) = before @ ShutDownData # behind"
  shows "fst (run cv vg) = Terminated
    \<and> data (data_queue (snd (run cv vg))) = behind
    \<and> live_out (snd (run cv vg)) = push ShutDownData (live_out (snd (snd (run_loop cv before vg))))
    \<and> stack_out (snd (run cv vg)) = push ShutDownData (stack_out (snd (snd (run_loop cv before vg))))
    \<and> debug_out (snd (run cv vg)) = push ShutDownData (debug_out (snd (snd (run_loop cv before vg))))
    \<and> plate_solving_out (snd (run cv vg)) = plate_solving_out (snd (snd (run_loop cv before vg)))
    \<and> sentinels (live_out (snd (run cv vg))) = sentinels (live_out vg) + 1
    \<and> sentinels (stack_out (snd (run cv vg))) = sentinels (stack_out vg) + 1
    \<and> sentinels (debug_out (snd (run cv vg))) = sentinels (debug_out vg) + 1"
proof -
  let ?vgB = "snd (snd (run_loop cv before vg))"
  have r: "run cv vg =
        (Terminated, (forward ShutDownData ?vgB)\<lparr>data_queue := (data_queue vg)\<lparr>data := behind\<rparr>\<rparr>)"
    using run_loop_shutdown [OF assms(1), of cv behind vg] assms(2)
    by (simp add: run_def)
  from sentinels_run_loop [OF assms(1), of cv vg] r show ?thesis
    by (simp add: sentinels_push)
qed

theorem shutdown_forwarded_once_witness:
  "ShutDownData \<notin> set [Control (example_control ctl_init True)]
   \<and> fst (run example_cv
        (new_VideoGenerator
           \<lparr>data = [Control (example_control ctl_init True), ShutDownData,
                    Control (example_control ctl_pause False)]\<rparr>
           empty_queue empty_queue empty_queue None)) = Terminated
   \<and> data (data_queue (snd (run example_cv
        (new_VideoGenerator
           \<lparr>data = [Control (example_control ctl_init True), ShutDownData,
                    Control (example_control ctl_pause False)]\<rparr>
           empty_queue empty_queue empty_queue None))))
       = [Control (example_control ctl_pause False)]
   \<and> sentinels (live_out (snd (run example_cv
        (new_VideoGenerator
           \<lparr>data = [Control (example_control ctl_init True), ShutDownData,
                    Control (example_control ctl_pause False)]\<rparr>
           empty_queue empty_queue empty_queue None)))) = 1"
proof -
  let ?vg = "new_VideoGenerator
           \<lparr>data = [Control (example_control ctl_init True), ShutDownData,
                    Control (example_control ctl_pause False)]\<rparr>
           empty_queue empty_queue empty_queue None :: unit VideoGenerator"
  have h1: "ShutDownData \<notin> set [Control (example_control ctl_init True) :: unit QueueData]"
    by simp
  have h2: "data (data_queue ?vg) =
      [Control (example_control ctl_init True)] @ ShutDownData
        # [Control (example_control ctl_pause False)]"
    by (simp add: new_VideoGenerator_def)
  have z: "sentinels (live_out ?vg) = 0"
    by (simp add: new_VideoGenerator_def sentinels_def empty_queue_def)
  from shutdown_forwarded_once [OF h1 h2, of example_cv]
  have "fst (run example_cv ?vg) = Terminated"
    and "data (data_queue (snd (run example_cv ?vg))) = [Control (example_control ctl_pause False)]"
    and "sentinels (live_out (snd (run example_cv ?vg))) = sentinels (live_out ?vg) + 1"
    by blast+
  with h1 z show ?thesis
    by simp
qed

subsection \<open>Stacking and plate solving exclude each other\<close>

lemma invariant_apply_control:
  "stacking_active (apply_control ctl vg) \<longrightarrow> stacking_in_process (apply_control ctl vg)"
  if "stacking_active vg \<longrightarrow> stacking_in_process vg"
  using that by (cases "op ctl") (simp_all add: apply_control_def)

lemma invariant_handle_message:
  assumes "stacking_active vg \<longrightarrow> stacking_in_process vg"
  shows "stacking_active (snd (handle_message cv m vg))
           \<longrightarrow> stacking_in_process (snd (handle_message cv m vg))"
proof (cases m)
  case ShutDownData
  with assms show ?thesis by simp
next
  case (Frame frm)
  with assms show ?thesis by simp
next
  case (Control ctl)
  with invariant_apply_control [OF assms, of ctl] show ?thesis by simp
next
  case Other_data
  with assms show ?thesis by (simp add: log_error_def)
qed

lemma invariant_run_loop:
  assumes "stacking_active vg \<longrightarrow> stacking_in_process vg"
  shows "stacking_active (snd (snd (run_loop cv msgs vg)))
           \<longrightarrow> stacking_in_process (snd (snd (run_loop cv msgs vg)))"
  using assms
proof (induction msgs arbitrary: vg)
  case Nil
  then show ?case by simp
next
  case (Cons m ms)
  obtain stop vg' where h: "handle_message cv m vg = (stop, vg')"
    by (cases "handle_message cv m vg")
  with invariant_handle_message [OF Cons.prems, of cv m]
  have inv: "stacking_active vg' \<longrightarrow> stacking_in_process vg'"
    by simp
  show ?case
  proof (cases stop)
    case True
    with h inv show ?thesis by simp
  next
    case False
    with h Cons.IH [OF inv] show ?thesis by simp
  qed
qed

lemma stack_or_plate:
  assumes "stacking_active vg \<longrightarrow> stacking_in_process vg"
  shows "stack_out (process_frame cv frm vg) = stack_out vg
       \<or> plate_solving_out (process_frame cv frm vg) = plate_solving_out vg"
proof (cases "format_pipeline cv vg frm")
  case (Pair errs res)
  with assms show ?thesis
    by (cases res) (auto simp add: process_frame_pipeline outs_fan_out split: option.splits)
qed

lemma push_changes: "push m q \<noteq> q"
proof
  assume "push m q = q"
  then have "data (push m q) = data q" by simp
  then show False by (simp add: push_def)
qed

text \<open>
  C9. In the state the stage reaches from its initial state by any sequence of messages
  (control messages are the ones that change the flags), \<^verbatim>\<open>stacking_active_\<close> implies
  \<^verbatim>\<open>stacking_in_process_\<close>; so for a frame processed in that state the stacking
  output or the plate-solving output is left as it was: no frame is pushed to both.
\<close>

theorem stacking_excludes_plate_solving:
  fixes queue stacking_output live_output debug plate_solving_output cv msgs
  defines "vg \<equiv> snd (snd (run_loop cv msgs
      (new_VideoGenerator queue stacking_output live_output debug plate_solving_output)))"
  shows "(stacking_active vg \<longrightarrow> stacking_in_process vg)
       \<and> (stack_out (process_frame cv frm vg) = stack_out vg
          \<or> plate_solving_out (process_frame cv frm vg) = plate_solving_out vg)"
proof -
  have "stacking_active (new_VideoGenerator queue stacking_output live_output debug
            plate_solving_output)
        \<longrightarrow> stacking_in_process (new_VideoGenerator queue stacking_output live_output debug
            plate_solving_output)"
    by (simp add: new_VideoGenerator_def)
  from invariant_run_loop [OF this, of cv msgs]
  have inv: "stacking_active vg \<longrightarrow> stacking_in_process vg"
    by (simp add: vg_def)
  with stack_or_plate [OF inv, of cv frm] show ?thesis
    by simp
qed


theorem stacking_excludes_plate_solving_witness:
  "stacking_active (snd (snd (run_loop example_cv [Control (example_control ctl_init True)]
       (example_vg (Some empty_queue)))))
   \<and> stacking_in_process (snd (snd (run_loop example_cv [Control (example_control ctl_init True)]
       (example_vg (Some empty_queue)))))
   \<and> stack_out (process_frame example_cv (example_frame stream_raw8 2 1 bayer_rg [0, 0])
         (snd (snd (run_loop example_cv [Control (example_control ctl_init True)]
            (example_vg (Some empty_queue))))))
       \<noteq> stack_out (snd (snd (run_loop example_cv [Control (example_control ctl_init True)]
            (example_vg (Some empty_queue)))))
   \<and> plate_solving_out (process_frame example_cv (example_frame stream_raw8 2 1 bayer_rg [0, 0])
         (snd (snd (run_loop example_cv [Control (example_control ctl_init True)]
            (example_vg (Some empty_queue))))))
       = plate_solving_out (snd (snd (run_loop example_cv [Control (example_control ctl_init True)]
            (example_vg (Some empty_queue)))))"
proof -
  let ?vg = "snd (snd (run_loop example_cv [Control (example_control ctl_init True)]
       (example_vg (Some empty_queue))))"
  let ?frm = "example_frame stream_raw8 2 1 bayer_rg [0, 0]"
  have a: "stacking_active ?vg"
    by (simp add: apply_control_def example_control_def)
  have c: "converted_frame example_cv ?vg ?frm \<noteq> None"
    by (simp add: converted_frame_def format_pipeline_def example_frame_def convert_frame_def
        invalid_frame_size_iff convert_raw_Some)
  then obtain frm' where "converted_frame example_cv ?vg ?frm = Some frm'"
    by blast
  with a have s: "stack_out (process_frame example_cv ?frm ?vg) \<noteq> stack_out ?vg"
    by (simp add: process_frame_forwarded outs_fan_out push_changes)
  from stacking_excludes_plate_solving [of example_cv "[Control (example_control ctl_init True)]"
      empty_queue empty_queue empty_queue empty_queue "Some empty_queue" ?frm] a s
  show ?thesis
    unfolding example_vg_def by blast
qed

subsection \<open>The fan-out of a frame\<close>

lemma handle_jpeg_stack_cong:
  assumes "(stacking_active vg \<or> plate_solving_out vg \<noteq> None)
             = (stacking_active vg' \<or> plate_solving_out vg' \<noteq> None)"
  shows "handle_jpeg_stack cv vg frm img copy = handle_jpeg_stack cv vg' frm img copy"
  using assms by (simp add: handle_jpeg_stack_def Let_def)

lemma format_pipeline_cong:
  assumes "(stacking_active vg \<or> plate_solving_out vg \<noteq> None)
             = (stacking_active vg' \<or> plate_solving_out vg' \<noteq> None)"
  shows "format_pipeline cv vg frm = format_pipeline cv vg' frm"
proof -
  note h = handle_jpeg_stack_cong [OF assms]
  have "convert_frame cv vg bpp frm = convert_frame cv vg' bpp frm" for bpp
    using assms
    by (cases "format (stream_format frm)")
      (simp_all add: convert_frame_def convert_raw_def convert_mono_def Let_def h
        split: prod.splits)
  then show ?thesis
    by (simp add: format_pipeline_def split: option.splits)
qed

lemma converted_frame_cong:
  assumes "(stacking_active vg \<or> plate_solving_out vg \<noteq> None)
             = (stacking_active vg' \<or> plate_solving_out vg' \<noteq> None)"
  shows "converted_frame cv vg frm = converted_frame cv vg' frm"
  by (simp add: converted_frame_def format_pipeline_cong [OF assms])

lemma apply_control_flags:
  "(stacking_active (apply_control ctl vg), stacking_in_process (apply_control ctl vg),
    debug_active (apply_control ctl vg)) =
     (case op ctl of
        ctl_init \<Rightarrow> (True, True, save_inputs ctl)
      | ctl_resume \<Rightarrow> (True, True, debug_active vg)
      | ctl_pause \<Rightarrow> (False, True, debug_active vg)
      | ctl_save \<Rightarrow> (False, False, debug_active vg)
      | ctl_cancel \<Rightarrow> (False, False, debug_active vg)
      | ctl_update \<Rightarrow> (stacking_active vg, stacking_in_process vg, debug_active vg))"
  by (cases "op ctl") (simp_all add: apply_control_def)

lemma data_process_frame:
  assumes "converted_frame cv vg frm = Some frm'"
  shows "data (live_out (process_frame cv frm vg)) = data (live_out vg) @ [Frame frm']"
    and "data (stack_out (process_frame cv frm vg)) =
           (if stacking_active vg then data (stack_out vg) @ [Frame frm'] else data (stack_out vg))"
    and "data (debug_out (process_frame cv frm vg)) =
           (if debug_active vg \<and> stacking_active vg then data (debug_out vg) @ [Frame frm']
            else data (debug_out vg))"
    and "stacking_in_process vg \<Longrightarrow>
           plate_solving_out (process_frame cv frm vg) = plate_solving_out vg"
  by (simp_all add: process_frame_forwarded [OF assms] outs_fan_out push_def
      split: option.splits)

lemma accepted_frame_routing:
  assumes "frame_accepted cv vg frm"
  shows "\<exists>frm'. converted_frame cv vg frm = Some frm'
     \<and> live_out (process_frame cv frm vg) = push (Frame frm') (live_out vg)
     \<and> stack_out (process_frame cv frm vg) =
         (if stacking_active vg then push (Frame frm') (stack_out vg) else stack_out vg)
     \<and> debug_out (process_frame cv frm vg) =
         (if debug_active vg \<and> stacking_active vg then push (Frame frm') (debug_out vg)
          else debug_out vg)
     \<and> plate_solving_out (process_frame cv frm vg) =
         (case plate_solving_out vg of
            None \<Rightarrow> None
          | Some q \<Rightarrow> Some (if \<not> stacking_in_process vg then push (Frame frm') q else q))"
proof -
  from assms obtain frm' where c: "converted_frame cv vg frm = Some frm'"
    by (auto simp: accepted_iff_converted)
  show ?thesis
    by (simp add: c process_frame_forwarded [OF c] outs_fan_out split: option.splits)
qed

lemma scenario:
  fixes queue stacking_output live_output debug plate_solving_output
  defines "vg0 \<equiv> new_VideoGenerator queue stacking_output live_output debug plate_solving_output"
  assumes ops: "op c_init = ctl_init" "save_inputs c_init" "op c_pause = ctl_pause"
      "op c_resume = ctl_resume" "op c_save = ctl_save"
    and f1: "converted_frame cv (vg0\<lparr>stacking_active := True\<rparr>) f1 = Some f1'"
    and f2: "converted_frame cv vg0 f2 = Some f2'"
  shows "\<exists>vg. run_loop cv [Control c_init, Frame f1, Control c_pause, Frame f2,
                        Control c_resume, Control c_save] vg0 = (Blocked, [], vg)
       \<and> data (live_out vg) = data live_output @
            [Control c_init, Frame f1', Control c_pause, Frame f2', Control c_resume,
             Control c_save]
       \<and> data (stack_out vg) = data stacking_output @
            [Control c_init, Frame f1', Control c_pause, Control c_resume, Control c_save]
       \<and> data (debug_out vg) = data debug @
            [Control c_init, Frame f1', Control c_pause, Control c_resume, Control c_save]
       \<and> plate_solving_out vg = plate_solving_output"
proof -
  define s1 where "s1 = forward (Control c_init) (apply_control c_init vg0)"
  define s2 where "s2 = process_frame cv f1 s1"
  define s3 where "s3 = forward (Control c_pause) (apply_control c_pause s2)"
  define s4 where "s4 = process_frame cv f2 s3"
  define s5 where "s5 = forward (Control c_resume) (apply_control c_resume s4)"
  define s6 where "s6 = forward (Control c_save) (apply_control c_save s5)"
  have run: "run_loop cv [Control c_init, Frame f1, Control c_pause, Frame f2,
                        Control c_resume, Control c_save] vg0 = (Blocked, [], s6)"
    by (simp add: s1_def s2_def s3_def s4_def s5_def s6_def)
  have fl1: "stacking_active s1" "stacking_in_process s1" "debug_active s1"
    using apply_control_flags [of c_init vg0] ops by (simp_all add: s1_def)
  have o1: "data (live_out s1) = data live_output @ [Control c_init]"
      "data (stack_out s1) = data stacking_output @ [Control c_init]"
      "data (debug_out s1) = data debug @ [Control c_init]"
      "plate_solving_out s1 = plate_solving_output"
    by (simp_all add: s1_def push_def vg0_def new_VideoGenerator_def)
  have c1: "converted_frame cv s1 f1 = Some f1'"
    using f1 fl1 converted_frame_cong [of s1 "vg0\<lparr>stacking_active := True\<rparr>" cv f1]
    by simp
  have fl2: "stacking_active s2" "stacking_in_process s2" "debug_active s2"
    using fl1 by (simp_all add: s2_def)
  have o2: "data (live_out s2) = data live_output @ [Control c_init, Frame f1']"
      "data (stack_out s2) = data stacking_output @ [Control c_init, Frame f1']"
      "data (debug_out s2) = data debug @ [Control c_init, Frame f1']"
      "plate_solving_out s2 = plate_solving_output"
    using data_process_frame [OF c1] fl1 o1 by (simp_all add: s2_def)
  have fl3: "\<not> stacking_active s3" "stacking_in_process s3" "debug_active s3"
    using apply_control_flags [of c_pause s2] ops fl2 by (simp_all add: s3_def)
  have o3: "data (live_out s3) = data live_output @ [Control c_init, Frame f1', Control c_pause]"
      "data (stack_out s3) = data stacking_output @ [Control c_init, Frame f1', Control c_pause]"
      "data (debug_out s3) = data debug @ [Control c_init, Frame f1', Control c_pause]"
      "plate_solving_out s3 = plate_solving_output"
    using o2 by (simp_all add: s3_def push_def)
  have "stacking_active vg0 = False" "plate_solving_out vg0 = plate_solving_output"
    by (simp_all add: vg0_def new_VideoGenerator_def)
  with fl3 o3 have "(stacking_active s3 \<or> plate_solving_out s3 \<noteq> None)
             = (stacking_active vg0 \<or> plate_solving_out vg0 \<noteq> None)"
    by simp
  from converted_frame_cong [OF this, of cv f2] f2
  have c2: "converted_frame cv s3 f2 = Some f2'"
    by simp
  have o4: "data (live_out s4) =
        data live_output @ [Control c_init, Frame f1', Control c_pause, Frame f2']"
      "data (stack_out s4) = data stacking_output @ [Control c_init, Frame f1', Control c_pause]"
      "data (debug_out s4) = data debug @ [Control c_init, Frame f1', Control c_pause]"
      "plate_solving_out s4 = plate_solving_output"
    using data_process_frame [OF c2] fl3 o3 by (simp_all add: s4_def)
  have o6: "data (live_out s6) = data live_output @
            [Control c_init, Frame f1', Control c_pause, Frame f2', Control c_resume,
             Control c_save]"
      "data (stack_out s6) = data stacking_output @
            [Control c_init, Frame f1', Control c_pause, Control c_resume, Control c_save]"
      "data (debug_out s6) = data debug @
            [Control c_init, Frame f1', Control c_pause, Control c_resume, Control c_save]"
      "plate_solving_out s6 = plate_solving_output"
    using o4 by (simp_all add: s5_def s6_def push_def)
  from run o6 show ?thesis
    by blast
qed


text \<open>
  C2. A frame that passes format processing is pushed, as converted, to the live output
  always; to the stacking output if and only if \<^verbatim>\<open>stacking_active_\<close>; to the debug
  output if and only if \<^verbatim>\<open>debug_active_\<close> and \<^verbatim>\<open>stacking_active_\<close>; and to the
  plate-solving output if and only if there is one and \<^verbatim>\<open>stacking_in_process_\<close> is
  false. And for the input \<^verbatim>\<open>init\<close> with the debug flag, a frame, \<^verbatim>\<open>pause\<close>, a second
  frame, \<^verbatim>\<open>resume\<close>, \<^verbatim>\<open>save\<close>, given to a new stage, both frames passing format
  processing: the live output receives all six messages in order, the stacking and the
  debug output receive the four control messages and the first frame, and the
  plate-solving output receives nothing.
\<close>

theorem frame_fan_out:
  fixes queue stacking_output live_output debug plate_solving_output
  defines "vg0 \<equiv> new_VideoGenerator queue stacking_output live_output debug plate_solving_output"
  shows "(frame_accepted cv vg frm \<longrightarrow>
      (\<exists>frm'. converted_frame cv vg frm = Some frm'
         \<and> live_out (process_frame cv frm vg) = push (Frame frm') (live_out vg)
         \<and> stack_out (process_frame cv frm vg) =
             (if stacking_active vg then push (Frame frm') (stack_out vg) else stack_out vg)
         \<and> debug_out (process_frame cv frm vg) =
             (if debug_active vg \<and> stacking_active vg then push (Frame frm') (debug_out vg)
              else debug_out vg)
         \<and> plate_solving_out (process_frame cv frm vg) =
             (case plate_solving_out vg of
                None \<Rightarrow> None
              | Some q \<Rightarrow> Some (if \<not> stacking_in_process vg then push (Frame frm') q else q))))
    \<and> (op c_init = ctl_init \<and> save_inputs c_init \<and> op c_pause = ctl_pause
        \<and> op c_resume = ctl_resume \<and> op c_save = ctl_save
        \<and> frame_accepted cv (vg0\<lparr>stacking_active := True\<rparr>) f1 \<and> frame_accepted cv vg0 f2 \<longrightarrow>
      (\<exists>vg' f1' f2'.
           converted_frame cv (vg0\<lparr>stacking_active := True\<rparr>) f1 = Some f1'
         \<and> converted_frame cv vg0 f2 = Some f2'
         \<and> run_loop cv [Control c_init, Frame f1, Control c_pause, Frame f2,
                         Control c_resume, Control c_save] vg0 = (Blocked, [], vg')
         \<and> data (live_out vg') = data live_output @
              [Control c_init, Frame f1', Control c_pause, Frame f2', Control c_resume,
               Control c_save]
         \<and> data (stack_out vg') = data stacking_output @
              [Control c_init, Frame f1', Control c_pause, Control c_resume, Control c_save]
         \<and> data (debug_out vg') = data debug @
              [Control c_init, Frame f1', Control c_pause, Control c_resume, Control c_save]
         \<and> plate_solving_out vg' = plate_solving_output))"
proof (intro conjI impI)
  assume "frame_accepted cv vg frm"
  then show "\<exists>frm'. converted_frame cv vg frm = Some frm'
         \<and> live_out (process_frame cv frm vg) = push (Frame frm') (live_out vg)
         \<and> stack_out (process_frame cv frm vg) =
             (if stacking_active vg then push (Frame frm') (stack_out vg) else stack_out vg)
         \<and> debug_out (process_frame cv frm vg) =
             (if debug_active vg \<and> stacking_active vg then push (Frame frm') (debug_out vg)
              else debug_out vg)
         \<and> plate_solving_out (process_frame cv frm vg) =
             (case plate_solving_out vg of
                None \<Rightarrow> None
              | Some q \<Rightarrow> Some (if \<not> stacking_in_process vg then push (Frame frm') q else q))"
    by (rule accepted_frame_routing)
next
  assume a: "op c_init = ctl_init \<and> save_inputs c_init \<and> op c_pause = ctl_pause
        \<and> op c_resume = ctl_resume \<and> op c_save = ctl_save
        \<and> frame_accepted cv (vg0\<lparr>stacking_active := True\<rparr>) f1 \<and> frame_accepted cv vg0 f2"
  then obtain f1' f2' where f1: "converted_frame cv (vg0\<lparr>stacking_active := True\<rparr>) f1 = Some f1'"
    and f2: "converted_frame cv vg0 f2 = Some f2'"
    by (auto simp: accepted_iff_converted)
  from a have ops: "op c_init = ctl_init" "save_inputs c_init" "op c_pause = ctl_pause"
      "op c_resume = ctl_resume" "op c_save = ctl_save"
    by simp_all
  from scenario [OF ops f1 [unfolded vg0_def] f2 [unfolded vg0_def]] f1 f2
  show "\<exists>vg' f1' f2'.
           converted_frame cv (vg0\<lparr>stacking_active := True\<rparr>) f1 = Some f1'
         \<and> converted_frame cv vg0 f2 = Some f2'
         \<and> run_loop cv [Control c_init, Frame f1, Control c_pause, Frame f2,
                         Control c_resume, Control c_save] vg0 = (Blocked, [], vg')
         \<and> data (live_out vg') = data live_output @
              [Control c_init, Frame f1', Control c_pause, Frame f2', Control c_resume,
               Control c_save]
         \<and> data (stack_out vg') = data stacking_output @
              [Control c_init, Frame f1', Control c_pause, Control c_resume, Control c_save]
         \<and> data (debug_out vg') = data debug @
              [Control c_init, Frame f1', Control c_pause, Control c_resume, Control c_save]
         \<and> plate_solving_out vg' = plate_solving_output"
    unfolding vg0_def by blast
qed

theorem frame_fan_out_witness:
  "frame_accepted example_cv
     (new_VideoGenerator empty_queue empty_queue empty_queue empty_queue (Some empty_queue))
     (example_frame stream_rgb24 1 1 bayer_na [1, 2, 3])
   \<and> frame_accepted example_cv
     ((new_VideoGenerator empty_queue empty_queue empty_queue empty_queue None)
        \<lparr>stacking_active := True\<rparr>)
     (example_frame stream_raw8 2 1 bayer_rg [0, 0])
   \<and> frame_accepted example_cv
     (new_VideoGenerator empty_queue empty_queue empty_queue empty_queue None)
     (example_frame stream_mjpeg 2 1 bayer_na [255, 216])
   \<and> (\<exists>frm'. live_out (process_frame example_cv (example_frame stream_rgb24 1 1 bayer_na [1, 2, 3])
          (new_VideoGenerator empty_queue empty_queue empty_queue empty_queue (Some empty_queue)))
        = push (Frame frm') empty_queue)
   \<and> (\<exists>vg' f1' f2'.
         run_loop example_cv
           [Control (example_control ctl_init True),
            Frame (example_frame stream_raw8 2 1 bayer_rg [0, 0]),
            Control (example_control ctl_pause False),
            Frame (example_frame stream_mjpeg 2 1 bayer_na [255, 216]),
            Control (example_control ctl_resume False),
            Control (example_control ctl_save False)]
           (new_VideoGenerator empty_queue empty_queue empty_queue empty_queue None)
           = (Blocked, [], vg')
         \<and> data (live_out vg') =
              [Control (example_control ctl_init True), Frame f1',
               Control (example_control ctl_pause False), Frame f2',
               Control (example_control ctl_resume False),
               Control (example_control ctl_save False)]
         \<and> data (stack_out vg') =
              [Control (example_control ctl_init True), Frame f1',
               Control (example_control ctl_pause False),
               Control (example_control ctl_resume False),
               Control (example_control ctl_save False)])"
proof -
  let ?vgp = "new_VideoGenerator empty_queue empty_queue empty_queue empty_queue (Some empty_queue)
                :: unit VideoGenerator"
  let ?vg0 = "new_VideoGenerator empty_queue empty_queue empty_queue empty_queue None
                :: unit VideoGenerator"
  let ?f = "example_frame stream_rgb24 1 1 bayer_na [1, 2, 3]"
  let ?f1 = "example_frame stream_raw8 2 1 bayer_rg [0, 0]"
  let ?f2 = "example_frame stream_mjpeg 2 1 bayer_na [255, 216]"
  have a: "frame_accepted example_cv ?vgp ?f"
    by (simp add: frame_accepted_def invalid_frame_size_iff example_frame_def)
  have a1: "frame_accepted example_cv (?vg0\<lparr>stacking_active := True\<rparr>) ?f1"
    by (simp add: frame_accepted_def invalid_frame_size_iff example_frame_def)
  have a2: "frame_accepted example_cv ?vg0 ?f2"
    by (simp add: frame_accepted_def invalid_frame_size_iff example_frame_def
        new_VideoGenerator_def word_sless_alt)
  have ops: "op (example_control ctl_init True) = ctl_init"
      "save_inputs (example_control ctl_init True)"
      "op (example_control ctl_pause False) = ctl_pause"
      "op (example_control ctl_resume False) = ctl_resume"
      "op (example_control ctl_save False) = ctl_save"
    by (simp_all add: example_control_def)
  have e: "data (empty_queue :: unit QueueData sync_queue) = []"
      "live_out ?vgp = empty_queue"
    by (simp_all add: empty_queue_def new_VideoGenerator_def)
  from frame_fan_out [where cv = example_cv and vg = ?vgp and frm = ?f
      and c_init = "example_control ctl_init True" and c_pause = "example_control ctl_pause False"
      and c_resume = "example_control ctl_resume False" and c_save = "example_control ctl_save False"
      and queue = empty_queue and stacking_output = empty_queue and live_output = empty_queue
      and debug = empty_queue and plate_solving_output = None
      and ?f1.0 = ?f1 and ?f2.0 = ?f2] a a1 a2 ops
  have "(\<exists>frm'. live_out (process_frame example_cv ?f ?vgp) = push (Frame frm') (live_out ?vgp))"
    and "(\<exists>vg' f1' f2'.
         run_loop example_cv
           [Control (example_control ctl_init True), Frame ?f1,
            Control (example_control ctl_pause False), Frame ?f2,
            Control (example_control ctl_resume False),
            Control (example_control ctl_save False)] ?vg0 = (Blocked, [], vg')
         \<and> data (live_out vg') = data (empty_queue :: unit QueueData sync_queue) @
              [Control (example_control ctl_init True), Frame f1',
               Control (example_control ctl_pause False), Frame f2',
               Control (example_control ctl_resume False),
               Control (example_control ctl_save False)]
         \<and> data (stack_out vg') = data (empty_queue :: unit QueueData sync_queue) @
              [Control (example_control ctl_init True), Frame f1',
               Control (example_control ctl_pause False),
               Control (example_control ctl_resume False),
               Control (example_control ctl_save False)])"
    by blast+
  with a a1 a2 e show ?thesis
    by simp
qed

subsection \<open>Raw frames without a Bayer pattern\<close>

text \<open>
  With an encoder that never throws, the functions with the exception written out are
  the functions above.
\<close>

lemma handle_jpeg_stack_x_never:
  "handle_jpeg_stack_x (\<lambda>img. False) cv vg frm img copy
     = Some (handle_jpeg_stack cv vg frm img copy)"
  by (simp add: handle_jpeg_stack_x_def handle_jpeg_stack_def Let_def)

lemma convert_frame_x_never:
  "convert_frame_x (\<lambda>img. False) cv vg bpp frm =
     (case convert_frame cv vg bpp frm of
        (errs, None) \<Rightarrow> Returns errs
      | (errs, Some frm') \<Rightarrow> Breaks errs frm')"
  by (cases "format (stream_format frm)")
    (simp_all add: convert_frame_x_def convert_frame_def convert_raw_x_def convert_raw_def
      convert_mono_x_def convert_mono_def handle_jpeg_stack_x_never Let_def
      split: prod.splits option.splits)

lemma process_frame_x_never:
  "process_frame_x (\<lambda>img. False) cv frm vg = Frame_returns (process_frame cv frm vg)"
  by (simp add: process_frame_x_def process_frame_def convert_frame_x_never
      split: option.splits prod.splits)

lemma raw_na_frame_x:
  fixes bpp :: int32
  assumes "(format (stream_format frm), bpp) \<in> {(stream_raw8, 1), (stream_raw16, 2)}"
    and "int (length (source_frame frm))
           = sint (width (stream_format frm)) * sint (height (stream_format frm)) * sint bpp"
    and "bayer frm = bayer_na"
  shows "process_frame_x imencode_throws cv frm vg =
     (case handle_jpeg_stack_x imencode_throws cv vg
             (frm\<lparr>frame_dr := (if bpp = 1 then 255 else 65535)\<rparr>) (Mat_default cv) False of
        None \<Rightarrow> Frame_throws (vg\<lparr>error_log := error_log vg @ [Invalid_bayer_patter]\<rparr>)
      | Some frm2 \<Rightarrow>
          Frame_returns
            (fan_out
               (frm2\<lparr>raw := Mat_header cv (height (stream_format frm))
                   (width (stream_format frm))
                   (if bpp = 1 then CV_8UC1 else CV_16UC1) (source_frame frm)\<rparr>)
               (vg\<lparr>error_log := error_log vg @ [Invalid_bayer_patter]\<rparr>)))"
proof -
  from assms(1) have b: "bytes_per_pixel (format (stream_format frm)) = Some bpp"
    and f: "format (stream_format frm) = stream_raw8 \<or> format (stream_format frm) = stream_raw16"
    by auto
  have "(of_nat (length (source_frame frm)) :: int32)
          = height (stream_format frm) * width (stream_format frm) * bpp"
    using assms(2) by (intro size_test_exact) (simp add: mult.commute)
  then have "\<not> invalid_frame_size frm bpp"
    by (simp add: invalid_frame_size_iff)
  with b f assms(3) show ?thesis
    by (auto simp: process_frame_x_def convert_frame_x_def convert_raw_x_def Let_def
        split: option.splits)
qed

text \<open>
  C10, on the code. A \<^verbatim>\<open>raw8\<close> frame of the declared length whose Bayer tag is \<^verbatim>\<open>NA\<close>:
  the stage logs the invalid pattern and does not return, so the default, empty matrix
  goes to \<^verbatim>\<open>handle_jpeg_stack\<close> and from there to \<^verbatim>\<open>cv::imencode\<close>. The encoder throws
  on the empty matrix, and the exception leaves \<^verbatim>\<open>process_frame\<close> and the loop: the
  frame reaches no output, the live output included, and the frame waiting behind it is
  never processed. The same frame with the pattern \<^verbatim>\<open>RGGB\<close> is pushed to the live
  output.
\<close>

theorem raw_frame_without_bayer_pattern_throws:
  "process_frame_x imencode_throws_on_empty empty_aware_cv (example_raw8_frame bayer_na)
       example_stage
     = Frame_throws (example_stage\<lparr>error_log := [Invalid_bayer_patter]\<rparr>)
   \<and> run_loop_x imencode_throws_on_empty empty_aware_cv
       [Frame (example_raw8_frame bayer_na), Frame (example_raw8_frame bayer_rg)] example_stage
     = (Loop_thrown, [Frame (example_raw8_frame bayer_rg)],
        example_stage\<lparr>error_log := [Invalid_bayer_patter]\<rparr>)
   \<and> live_out (example_stage\<lparr>error_log := [Invalid_bayer_patter]\<rparr>) = empty_queue
   \<and> process_frame_x imencode_throws_on_empty empty_aware_cv (example_raw8_frame bayer_rg)
       example_stage
     = Frame_returns (example_stage
         \<lparr>live_out := push (Frame ((example_raw8_frame bayer_rg)
              \<lparr>raw := False, jpeg_frame := Some [255, 216]\<rparr>)) empty_queue\<rparr>)"
  by (simp add: process_frame_x_def invalid_frame_size_iff convert_frame_x_def convert_raw_x_def
      handle_jpeg_stack_x_def Let_def empty_aware_cv_def imencode_throws_on_empty_def
      example_raw8_frame_def example_stage_def new_VideoGenerator_def fan_out_def)

end
